theory Spec2Isabelle
  imports Complex_Main "HOL-Library.AList"
begin

section \<open>Python strings\<close>

text \<open>
  The source is Python 3; its \<open>str\<close> values are modelled as \<open>string\<close>, one \<open>char\<close>
  per code point, so the model covers the code points 0 to 255 (Latin-1). The predicates
  below are Python's own classifications on that range: \<open>str.isspace\<close> (also the
  regular expression class \<open>\s\<close> and the characters removed by \<open>str.strip\<close>), the
  decimal digits (\<open>\d\<close>), the word characters (\<open>\w\<close>, used by \<open>\b\<close>) and
  \<open>str.lower\<close>.
\<close>

definition is_space :: "char \<Rightarrow> bool" where
  "is_space c = (let n = (of_char c :: nat) in
     (9 \<le> n \<and> n \<le> 13) \<or> (28 \<le> n \<and> n \<le> 32) \<or> n = 133 \<or> n = 160)"

definition is_digit :: "char \<Rightarrow> bool" where
  "is_digit c = (let n = (of_char c :: nat) in 48 \<le> n \<and> n \<le> 57)"

definition is_word :: "char \<Rightarrow> bool" where
  "is_word c = (let n = (of_char c :: nat) in
     (48 \<le> n \<and> n \<le> 57) \<or> (65 \<le> n \<and> n \<le> 90) \<or> n = 95 \<or> (97 \<le> n \<and> n \<le> 122) \<or>
     n = 170 \<or> n = 178 \<or> n = 179 \<or> n = 181 \<or> n = 185 \<or> n = 186 \<or>
     (188 \<le> n \<and> n \<le> 190) \<or> (192 \<le> n \<and> n \<le> 214) \<or> (216 \<le> n \<and> n \<le> 246) \<or>
     (248 \<le> n \<and> n \<le> 255))"

definition lower_char :: "char \<Rightarrow> char" where
  "lower_char c = (let n = (of_char c :: nat) in
     if (65 \<le> n \<and> n \<le> 90) \<or> (192 \<le> n \<and> n \<le> 222 \<and> n \<noteq> 215)
     then char_of (n + 32) else c)"

definition lower :: "string \<Rightarrow> string" where
  "lower s = map lower_char s"

definition strip :: "string \<Rightarrow> string" where
  "strip s = rev (dropWhile is_space (rev (dropWhile is_space s)))"

text \<open>\<open>str(n)\<close> for a natural number, \<open>str(i)\<close> for an integer, and \<open>s.zfill(2)\<close>
  (a sign stays in front of the padding).\<close>

fun str_nat :: "nat \<Rightarrow> string" where
  "str_nat n = (if n < 10 then [char_of (48 + n)]
                else str_nat (n div 10) @ [char_of (48 + n mod 10)])"

definition str_int :: "int \<Rightarrow> string" where
  "str_int i = (if i < 0 then CHR ''-'' # str_nat (nat (- i)) else str_nat (nat i))"

definition zfill2 :: "string \<Rightarrow> string" where
  "zfill2 s = (if length s \<ge> 2 then s
     else case s of
        [] \<Rightarrow> ''00''
      | c # cs \<Rightarrow> if c = CHR ''+'' \<or> c = CHR ''-'' then c # CHR ''0'' # cs else CHR ''0'' # s)"

text \<open>\<open>int(s)\<close> on a run of decimal digits.\<close>

definition digit_val :: "char \<Rightarrow> nat" where
  "digit_val c = of_char c - 48"

definition nat_of_digits :: "string \<Rightarrow> nat" where
  "nat_of_digits s = foldl (\<lambda>a c. 10 * a + digit_val c) 0 s"

section \<open>Regular expressions as the source uses them\<close>

text \<open>
  The patterns of the source use literals, character classes, \<open>*\<close>, \<open>+\<close> and \<open>{n}\<close> on
  a single class, groups, alternation and the assertions \<open>^\<close>, \<open>$\<close> and \<open>\b\<close>. \<open>rm r prev s\<close>
  lists every way \<open>r\<close> matches a prefix of \<open>s\<close> (the text from the current position on,
  \<open>prev\<close> being the character before it, \<open>None\<close> at the start of the text) as the
  matched length and the captured groups, in the order in which Python's backtracking
  matcher tries them: greedy repetitions from the longest, alternatives from the left.
  The head of the list is the match Python reports.
\<close>

datatype re =
    Chr "char \<Rightarrow> bool"
  | Star "char \<Rightarrow> bool"
  | Plus "char \<Rightarrow> bool"
  | Rep nat "char \<Rightarrow> bool"
  | Bol
  | Eol
  | Wordb
  | Seq "re list"
  | Alt re re
  | Grp nat re

type_synonym rmatch = "nat \<times> (nat \<times> string) list"

definition word_at :: "char option \<Rightarrow> bool" where
  "word_at x = (case x of None \<Rightarrow> False | Some c \<Rightarrow> is_word c)"

definition first_char :: "string \<Rightarrow> char option" where
  "first_char s = (case s of [] \<Rightarrow> None | c # _ \<Rightarrow> Some c)"

fun rm :: "re \<Rightarrow> char option \<Rightarrow> string \<Rightarrow> rmatch list" where
  "rm (Chr p) prev s = (case s of [] \<Rightarrow> [] | c # _ \<Rightarrow> if p c then [(1, [])] else [])"
| "rm (Star p) prev s = map (\<lambda>k. (k, [])) (rev [0..<Suc (length (takeWhile p s))])"
| "rm (Plus p) prev s = map (\<lambda>k. (k, [])) (rev [1..<Suc (length (takeWhile p s))])"
| "rm (Rep n p) prev s = (if length (takeWhile p (take n s)) = n then [(n, [])] else [])"
| "rm Bol prev s = (if prev = None then [(0, [])] else [])"
| "rm Eol prev s = (if s = [] \<or> s = [CHR 0x0A] then [(0, [])] else [])"
| "rm Wordb prev s = (if word_at prev \<noteq> word_at (first_char s) then [(0, [])] else [])"
| "rm (Seq []) prev s = [(0, [])]"
| "rm (Seq (a # as)) prev s =
     concat (map (\<lambda>(n1, g1). map (\<lambda>(n2, g2). (n1 + n2, g1 @ g2))
        (rm (Seq as) (if n1 = 0 then prev else Some (s ! (n1 - 1))) (drop n1 s))) (rm a prev s))"
| "rm (Alt a b) prev s = rm a prev s @ rm b prev s"
| "rm (Grp i a) prev s = map (\<lambda>(n, g). (n, (i, take n s) # g)) (rm a prev s)"

text \<open>A literal, and a literal under \<open>re.IGNORECASE\<close> (given in lower case).\<close>

definition lit :: "string \<Rightarrow> re" where
  "lit w = Seq (map (\<lambda>x. Chr (\<lambda>c. c = x)) w)"

definition lit_ci :: "string \<Rightarrow> re" where
  "lit_ci w = Seq (map (\<lambda>x. Chr (\<lambda>c. lower_char c = x)) w)"

text \<open>\<open>re.search\<close>: the leftmost position with a match, and the first match there. The
  result is the text of the whole match (group 0) and the captured groups.\<close>

fun re_search_from :: "re \<Rightarrow> char option \<Rightarrow> string \<Rightarrow> (string \<times> (nat \<times> string) list) option" where
  "re_search_from r prev [] =
     (case rm r prev [] of [] \<Rightarrow> None | (n, g) # _ \<Rightarrow> Some ([], g))"
| "re_search_from r prev (c # cs) =
     (case rm r prev (c # cs) of
        [] \<Rightarrow> re_search_from r (Some c) cs
      | (n, g) # _ \<Rightarrow> Some (take n (c # cs), g))"

definition re_search :: "re \<Rightarrow> string \<Rightarrow> (string \<times> (nat \<times> string) list) option" where
  "re_search r s = re_search_from r None s"

definition re_found :: "re \<Rightarrow> string \<Rightarrow> bool" where
  "re_found r s = (re_search r s \<noteq> None)"

definition group :: "nat \<Rightarrow> string \<times> (nat \<times> string) list \<Rightarrow> string" where
  "group i m = (if i = 0 then fst m else case map_of (snd m) i of None \<Rightarrow> [] | Some g \<Rightarrow> g)"

text \<open>\<open>re.sub\<close> for patterns that match at least one character (every pattern the source
  substitutes does): the matches are found left to right, each search starting where
  the previous match ended; \<open>skip\<close> counts the characters of the current match that are
  still to be dropped. A match of length 0 is not substituted.\<close>

fun re_sub_from :: "re \<Rightarrow> string \<Rightarrow> nat \<Rightarrow> char option \<Rightarrow> string \<Rightarrow> string" where
  "re_sub_from r repl skip prev [] = []"
| "re_sub_from r repl skip prev (c # cs) =
     (if skip > 0 then re_sub_from r repl (skip - 1) (Some c) cs
      else case rm r prev (c # cs) of
          [] \<Rightarrow> c # re_sub_from r repl 0 (Some c) cs
        | (n, g) # _ \<Rightarrow>
            if n = 0 then c # re_sub_from r repl 0 (Some c) cs
            else repl @ re_sub_from r repl (n - 1) (Some c) cs)"

definition re_sub :: "re \<Rightarrow> string \<Rightarrow> string \<Rightarrow> string" where
  "re_sub r repl s = re_sub_from r repl 0 None s"

text \<open>The character classes of the source's patterns.\<close>

definition cls_sep :: "char \<Rightarrow> bool" where
  \<comment> \<open>\<open>[\s\-_\.]\<close>\<close>
  "cls_sep c = (is_space c \<or> c = CHR ''-'' \<or> c = CHR ''_'' \<or> c = CHR ''.'')"

definition cls_sep2 :: "char \<Rightarrow> bool" where
  \<comment> \<open>\<open>[\s\-_]\<close>\<close>
  "cls_sep2 c = (is_space c \<or> c = CHR ''-'' \<or> c = CHR ''_'')"

definition cls_bracket :: "char \<Rightarrow> bool" where
  \<comment> \<open>\<open>[-_\(\)\[\]]\<close>\<close>
  "cls_bracket c = (c = CHR ''-'' \<or> c = CHR ''_'' \<or> c = CHR ''('' \<or> c = CHR '')'' \<or>
                    c = CHR ''['' \<or> c = CHR '']'')"

section \<open>Filename classifier\<close>

text \<open>The ten patterns of \<open>_is_generic_filename\<close>, in the order of the source.\<close>

definition words4 :: re where
  \<comment> \<open>\<open>(track|titulo|cancion|song)\<close>\<close>
  "words4 = Grp 1 (Alt (lit ''track'') (Alt (lit ''titulo'') (Alt (lit ''cancion'') (lit ''song''))))"

definition generic_patterns :: "re list" where
  "generic_patterns =
    [ Seq [Bol, lit ''track'', Star is_space, Plus is_digit],
      Seq [Bol, Plus is_digit, Star cls_sep, lit ''track'', Star is_digit],
      Seq [Bol, Plus is_digit, Star cls_sep, Eol],
      Seq [Bol, Plus is_digit, Plus cls_sep, Plus is_digit, Eol],
      Seq [Bol, lit ''track'', Star cls_sep, Plus is_digit],
      Seq [Bol, Plus is_digit, Star cls_sep, words4],
      Seq [Bol, words4, Star cls_sep, Plus is_digit],
      Seq [lit ''untitled'', Star cls_sep2, Star is_digit],
      Seq [Bol, lit ''audio'', Star cls_sep2, Plus is_digit],
      Seq [Bol, lit ''pista'', Star cls_sep2, Plus is_digit] ]"

definition is_generic_filename :: "string \<Rightarrow> bool" where
  "is_generic_filename filename =
     (let filename_lower = strip (lower filename)
      in list_ex (\<lambda>pattern. re_found pattern filename_lower) generic_patterns)"

section \<open>Track number extraction\<close>

text \<open>The three patterns of \<open>_extract_track_number\<close>, tried in order on the lower-cased
  filename; the first that matches gives \<open>int(match.group(1))\<close>. Group 1 is a run of
  decimal digits, so \<open>int\<close> does not raise.\<close>

definition track_number_patterns :: "re list" where
  "track_number_patterns =
    [ Seq [Bol, Grp 1 (Plus is_digit), Star cls_sep],
      Seq [lit ''track'', Star cls_sep2, Grp 1 (Plus is_digit)],
      Seq [Grp 1 (Plus is_digit), Star cls_sep2, lit ''track''] ]"

fun first_track_number :: "re list \<Rightarrow> string \<Rightarrow> nat option" where
  "first_track_number [] s = None"
| "first_track_number (pattern # ps) s =
     (case re_search pattern s of
        Some m \<Rightarrow> Some (nat_of_digits (group 1 m))
      | None \<Rightarrow> first_track_number ps s)"

definition extract_track_number :: "string \<Rightarrow> nat option" where
  "extract_track_number filename = first_track_number track_number_patterns (lower filename)"

section \<open>Path metadata parser\<close>

text \<open>A path is the list of its parts (\<open>Path.parts\<close>). \<open>posix_parts\<close> is how pathlib
  splits a POSIX path string; \<open>relative_to\<close> raises \<open>ValueError\<close> when the file is not
  under the root; \<open>stem\<close> is the last part without its last suffix. An exception is
  its class and its message (\<open>str(e)\<close>); every class here is a subclass of \<open>Exception\<close>,
  which is what the \<open>except\<close> clauses of the source catch.\<close>

datatype exn_class =
    ValueError | KeyError | IndexError | OSError | FileNotFoundError
  | TimeoutExpired | CalledProcessError | WSError | OtherException

datatype exn = Exn exn_class string

type_synonym path = "string list"

fun split_on :: "char \<Rightarrow> string \<Rightarrow> string \<Rightarrow> string list" where
  "split_on d acc [] = [rev acc]"
| "split_on d acc (c # cs) = (if c = d then rev acc # split_on d [] cs else split_on d (c # acc) cs)"

definition posix_parts :: "string \<Rightarrow> path" where
  "posix_parts s =
     (let root = (if take 2 s = ''//'' \<and> take 3 s \<noteq> ''///'' then [''//'']
                  else if take 1 s = ''/'' then [''/''] else [])
      in root @ filter (\<lambda>p. p \<noteq> [] \<and> p \<noteq> ''.'') (split_on (CHR ''/'') [] s))"

definition relative_to :: "path \<Rightarrow> path \<Rightarrow> exn + path" where
  "relative_to file_path source_path =
     (if take (length source_path) file_path = source_path
      then Inr (drop (length source_path) file_path)
      else Inl (Exn ValueError ''path is not in the subpath''))"

definition path_name :: "path \<Rightarrow> string" where
  "path_name p = (if p = [] then [] else last p)"

fun rfind_dot :: "string \<Rightarrow> nat \<Rightarrow> nat option \<Rightarrow> nat option" where
  "rfind_dot [] i found = found"
| "rfind_dot (c # cs) i found = rfind_dot cs (Suc i) (if c = CHR ''.'' then Some i else found)"

definition stem :: "path \<Rightarrow> string" where
  "stem p =
     (let name = path_name p
      in case rfind_dot name 0 None of
           None \<Rightarrow> name
         | Some i \<Rightarrow> if 0 < i \<and> i < length name - 1 then take i name else name)"

record PathMetadata =
  pm_title :: string
  pm_artist :: string
  pm_album :: string
  pm_year :: string
  pm_track_number :: string
  pm_is_generic :: bool

text \<open>The pattern that cleans the title of a generic filename, under \<open>re.IGNORECASE\<close>:
  \<open>^(\d+[\s\-_\.]*)|(track[\s\-_]*\d*[\s\-_]*)\<close>.\<close>

definition clean_title_pattern :: re where
  "clean_title_pattern =
     Alt (Seq [Bol, Grp 1 (Seq [Plus is_digit, Star cls_sep])])
         (Grp 2 (Seq [lit_ci ''track'', Star cls_sep2, Star is_digit, Star cls_sep2]))"

text \<open>The three year patterns, each with the text of the pattern as the source writes it:
  the source chooses between \<open>group(1)\<close> and \<open>group(0)\<close> by looking for a parenthesis or a
  bracket in that text.\<close>

definition bs :: char where
  "bs = CHR 0x5C"

definition year_patterns :: "(string \<times> re) list" where
  "year_patterns =
    [ (bs # ''b(19|20)'' @ bs # ''d{2}'' @ bs # ''b'',
       Seq [Wordb, Grp 1 (Alt (lit ''19'') (lit ''20'')), Rep 2 is_digit, Wordb]),
      (bs # ''('' @ ''('' @ bs # ''d{4})'' @ bs # '')'',
       Seq [Chr (\<lambda>c. c = CHR ''(''), Grp 1 (Rep 4 is_digit), Chr (\<lambda>c. c = CHR '')'')]),
      (bs # ''['' @ ''('' @ bs # ''d{4})'' @ bs # '']'',
       Seq [Chr (\<lambda>c. c = CHR ''[''), Grp 1 (Rep 4 is_digit), Chr (\<lambda>c. c = CHR '']'')]) ]"

definition separator_pattern :: re where
  \<comment> \<open>\<open>\s*[-_\(\)\[\]]\s*\<close>\<close>
  "separator_pattern = Seq [Star is_space, Chr cls_bracket, Star is_space]"

text \<open>The loop over the year patterns: the year and the album name, or \<open>None\<close> when no
  pattern matches (the \<open>else\<close> of the \<open>for\<close>).\<close>

fun find_year :: "(string \<times> re) list \<Rightarrow> string \<Rightarrow> (string \<times> string) option" where
  "find_year [] album_part = None"
| "find_year ((text, pattern) # ps) album_part =
     (case re_search pattern album_part of
        Some year_match \<Rightarrow>
          (let year = (if CHR ''('' \<in> set text \<or> CHR ''['' \<in> set text
                       then group 1 year_match else group 0 year_match);
               album_clean = strip (re_sub pattern [] album_part);
               album_clean = strip (re_sub separator_pattern '' '' album_clean)
           in Some (year, album_clean))
      | None \<Rightarrow> find_year ps album_part)"

definition various_aliases :: "string list" where
  "various_aliases = [''various artists'', ''various'', ''compilation'', ''va'']"

definition parse_relative :: "path \<Rightarrow> PathMetadata" where
  "parse_relative relative_path =
     (let parts = butlast relative_path;
          filename = stem relative_path;
          generic = is_generic_filename filename;
          track_num = extract_track_number filename;
          truthy = (case track_num of None \<Rightarrow> False | Some n \<Rightarrow> n \<noteq> 0);
          track_number = (if truthy then zfill2 (str_nat (the track_num)) else []);
          title = (if truthy \<and> generic
                   then (let clean_title = re_sub clean_title_pattern [] filename
                         in if strip clean_title \<noteq> [] then strip clean_title else filename)
                   else filename);
          found = (if length parts \<ge> 1 then find_year year_patterns (last parts) else None);
          year = (case found of None \<Rightarrow> [] | Some (y, a) \<Rightarrow> y);
          album = (if length parts \<ge> 1
                   then (case found of None \<Rightarrow> last parts | Some (y, a) \<Rightarrow> a)
                   else []);
          artist = (if length parts \<ge> 2
                    then (let artist_part = parts ! (length parts - 2)
                          in if lower artist_part \<in> set various_aliases
                             then ''Various Artists'' else artist_part)
                    else [])
      in \<lparr> pm_title = strip title, pm_artist = strip artist, pm_album = strip album,
           pm_year = strip year, pm_track_number = track_number, pm_is_generic = generic \<rparr>)"

definition parse_directory_structure :: "path \<Rightarrow> path \<Rightarrow> exn + PathMetadata" where
  "parse_directory_structure file_path source_path =
     (case relative_to file_path source_path of
        Inl e \<Rightarrow> Inl e
      | Inr relative_path \<Rightarrow> Inr (parse_relative relative_path))"

section \<open>Metadata records\<close>

text \<open>A metadata record is a Python \<open>dict\<close> from field names to strings: an association
  list in insertion order, read with \<open>map_of\<close> and written with \<open>AList.update\<close> (an
  existing key keeps its place, a new key goes to the end, as in Python).\<close>

type_synonym metadata = "(string \<times> string) list"

definition get_or :: "metadata \<Rightarrow> string \<Rightarrow> string \<Rightarrow> string" where
  \<comment> \<open>\<open>d.get(key, default)\<close>\<close>
  "get_or d key dflt = (case map_of d key of None \<Rightarrow> dflt | Some v \<Rightarrow> v)"

definition has_value :: "metadata \<Rightarrow> string \<Rightarrow> bool" where
  \<comment> \<open>the truth value of \<open>d.get(key)\<close>: the key is present with a non-empty string\<close>
  "has_value d key = (case map_of d key of None \<Rightarrow> False | Some v \<Rightarrow> v \<noteq> [])"

definition essential_fields :: "string list" where
  "essential_fields = [''title'', ''artist'', ''album'']"

definition musicbrainz_fields :: "string list" where
  "musicbrainz_fields = [''musicbrainz_recordingid'', ''musicbrainz_trackid'']"

definition is_metadata_complete :: "metadata \<Rightarrow> bool" where
  "is_metadata_complete m =
     (if list_ex (\<lambda>field. \<not> has_value m field \<or> strip (get_or m field []) = []) essential_fields
      then False
      else if is_generic_filename (get_or m ''title'' []) then False
      else if list_ex (has_value m) musicbrainz_fields then True
      else False)"

section \<open>The external services and the state of a lookup object\<close>

text \<open>
  Every external call of \<open>AdvancedMetadataLookup\<close> is an event of the trace, in the order
  in which the calls are made: \<open>_rate_limit\<close> (which may sleep), \<open>time.sleep\<close>, the three
  MusicBrainz requests, the two runs of \<open>fpcalc\<close>, \<open>acoustid.fingerprint_file\<close>,
  \<open>acoustid.lookup\<close>, and \<open>get_track\<close> and \<open>get_artist\<close> of the Last.fm network (the
  methods later called on a Last.fm object are the fields of the object returned).
  Wall-clock time is not modelled.
\<close>

datatype event =
    RateLimit
  | Sleep nat
  | SearchReleases string
  | GetReleaseById string
  | SearchRecordings string
  | FpcalcVersion
  | Fpcalc
  | FingerprintFile string
  | AcoustidLookup string
  | LastfmGetTrack string string
  | LastfmGetArtist string

text \<open>The responses of MusicBrainz, with an absent key as \<open>None\<close>. \<open>*_extra\<close> says
  whether the dict has keys other than the ones the source reads (an empty dict is false
  in Python).\<close>

record artist_ref =
  ar_id :: "string option"
  ar_name :: "string option"

record credit =
  cr_name :: "string option"
  cr_artist :: "artist_ref option"

record release =
  rel_id :: "string option"
  rel_title :: "string option"
  rel_artist_credit :: "credit list option"
  rel_date :: "string option"
  rel_extra :: bool

record recording_ref =
  rr_id :: "string option"
  rr_title :: "string option"

record mb_track =
  tr_position :: "string option"
  tr_title :: "string option"
  tr_length :: "string option"
  tr_recording :: "recording_ref option"

record medium =
  med_track_list :: "mb_track list option"

record release_detail =
  rd_medium_list :: "medium list option"

record recording =
  rec_id :: "string option"
  rec_title :: "string option"
  rec_artist_credit :: "credit list option"
  rec_release_list :: "release list option"
  rec_extra :: bool

text \<open>The response of AcoustID.\<close>

record ac_track =
  at_id :: "string option"
  at_position :: "string option"

record ac_medium =
  am_tracks :: "ac_track list option"

record ac_release =
  ae_title :: "string option"
  ae_id :: "string option"
  ae_date :: "string option"
  ae_mediums :: "ac_medium list option"

record ac_artist =
  aa_name :: "string option"
  aa_id :: "string option"

record ac_recording =
  ac_title :: "string option"
  ac_id :: "string option"
  ac_artists :: "ac_artist list option"
  ac_releases :: "ac_release list option"

record ac_result =
  ac_score :: "rat option"
  ac_recordings :: "ac_recording list option"

record ac_response =
  ac_status :: "string option"
  ac_results :: "ac_result list"

text \<open>The objects of pylast: each field is what the method of that name returns or
  raises.\<close>

record lastfm_artist =
  la_get_name :: "exn + string"
  la_get_correction :: "exn + string"

record lastfm_album =
  lb_get_name :: "exn + string"
  lb_get_url :: "exn + string"

record lastfm_track =
  lt_get_name :: "exn + string"
  lt_get_artist :: "exn + lastfm_artist option"
  lt_get_url :: "exn + string"
  lt_get_playcount :: "exn + nat"
  lt_get_listener_count :: "exn + nat"
  lt_get_album :: "exn + lastfm_album option"
  lt_get_top_tags :: "exn + (exn + string) list"

text \<open>A file handed to the fingerprint client: its name, \<open>str(file_path)\<close>, and what
  \<open>file_path.stat().st_size\<close> returns or raises.\<close>

record audio_file =
  f_name :: string
  f_str :: string
  f_stat_size :: "exn + nat"

text \<open>The world outside: what each external call answers, given the calls made so far.
  \<open>w_similarity a b\<close> is \<open>SequenceMatcher(None, a, b).ratio()\<close> and \<open>w_str_float\<close> is
  \<open>str\<close> on a float; both are library functions, taken as parameters, and the floats of
  the source are rationals here.\<close>

record world =
  w_similarity :: "string \<Rightarrow> string \<Rightarrow> rat"
  w_str_float :: "rat \<Rightarrow> string"
  w_search_releases :: "event list \<Rightarrow> string \<Rightarrow> exn + release list"
  w_get_release_by_id :: "event list \<Rightarrow> string \<Rightarrow> exn + release_detail option"
  w_search_recordings :: "event list \<Rightarrow> string \<Rightarrow> exn + recording list"
  w_fpcalc_version :: "event list \<Rightarrow> exn + unit"
  w_fpcalc :: "event list \<Rightarrow> exn + string"
  w_fingerprint_file :: "event list \<Rightarrow> string \<Rightarrow> exn + rat \<times> string"
  w_acoustid_lookup :: "event list \<Rightarrow> string \<Rightarrow> rat \<Rightarrow> exn + ac_response"
  w_lastfm_get_track :: "event list \<Rightarrow> string \<Rightarrow> string \<Rightarrow> exn + lastfm_track"
  w_lastfm_get_artist :: "event list \<Rightarrow> string \<Rightarrow> exn + lastfm_artist"

text \<open>The fields of \<open>AdvancedMetadataLookup\<close> that the lookups read and write. A cache
  maps a key to \<open>Some r\<close> when the key is in the dict, \<open>r\<close> being the value stored
  (\<open>None\<close> for Python's \<open>None\<close>, the no-match marker).\<close>

record lookup_state =
  cache :: "string \<rightharpoonup> metadata option"
  album_cache :: "string \<rightharpoonup> metadata list option"
  fingerprint_cache :: "string \<rightharpoonup> metadata option"
  lastfm_cache :: "string \<rightharpoonup> metadata option"
  fingerprint_enabled :: bool
  lastfm_enabled :: bool
  trace :: "event list"

definition init_state :: "bool \<Rightarrow> bool \<Rightarrow> lookup_state" where
  \<comment> \<open>\<open>__init__\<close>: empty caches; \<open>lastfm\<close> says whether the Last.fm network was set up\<close>
  "init_state enable_fingerprinting lastfm =
     \<lparr> cache = Map.empty, album_cache = Map.empty, fingerprint_cache = Map.empty,
       lastfm_cache = Map.empty, fingerprint_enabled = enable_fingerprinting,
       lastfm_enabled = lastfm, trace = [] \<rparr>"

definition emit :: "event \<Rightarrow> lookup_state \<Rightarrow> lookup_state" where
  "emit e st = st\<lparr>trace := trace st @ [e]\<rparr>"

definition rate_limit :: "lookup_state \<Rightarrow> lookup_state" where
  "rate_limit st = emit RateLimit st"

definition dq :: char where
  "dq = CHR 0x22"

text \<open>\<open>int(s)\<close> on a string: surrounding whitespace is dropped (the characters of
  \<open>str.isspace\<close> without the codes 28 to 31), a sign may come first, and single
  underscores may separate digits; anything else raises \<open>ValueError\<close> (\<open>None\<close> here).\<close>

definition is_int_space :: "char \<Rightarrow> bool" where
  "is_int_space c = (let n = (of_char c :: nat) in
     (9 \<le> n \<and> n \<le> 13) \<or> n = 32 \<or> n = 133 \<or> n = 160)"

fun no_double_underscore :: "string \<Rightarrow> bool" where
  "no_double_underscore (a # b # cs) =
     (\<not> (a = CHR ''_'' \<and> b = CHR ''_'') \<and> no_double_underscore (b # cs))"
| "no_double_underscore cs = True"

definition valid_int_digits :: "string \<Rightarrow> bool" where
  "valid_int_digits d =
     (d \<noteq> [] \<and> is_digit (hd d) \<and> is_digit (last d) \<and>
      list_all (\<lambda>c. is_digit c \<or> c = CHR ''_'') d \<and> no_double_underscore d)"

definition digits_value :: "string \<Rightarrow> int option" where
  "digits_value d =
     (if valid_int_digits d then Some (int (nat_of_digits (filter (\<lambda>c. c \<noteq> CHR ''_'') d)))
      else None)"

definition py_int :: "string \<Rightarrow> int option" where
  "py_int s =
     (case rev (dropWhile is_int_space (rev (dropWhile is_int_space s))) of
        [] \<Rightarrow> None
      | c # cs \<Rightarrow>
          if c = CHR ''-'' then map_option uminus (digits_value cs)
          else if c = CHR ''+'' then digits_value cs
          else digits_value (c # cs))"

definition opt_or :: "'a option \<Rightarrow> 'a \<Rightarrow> 'a" where
  \<comment> \<open>\<open>d.get(key, default)\<close> on a response\<close>
  "opt_or x dflt = (case x of None \<Rightarrow> dflt | Some v \<Rightarrow> v)"

section \<open>Catalog album client\<close>

definition album_key :: "string \<Rightarrow> string \<Rightarrow> string" where
  "album_key artist album = lower (''album_'' @ artist @ ''|'' @ album)"

definition release_truthy :: "release \<Rightarrow> bool" where
  "release_truthy r =
     (rel_id r \<noteq> None \<or> rel_title r \<noteq> None \<or> rel_artist_credit r \<noteq> None \<or>
      rel_date r \<noteq> None \<or> rel_extra r)"

text \<open>\<open>release['artist-credit'][0].get('name', '')\<close>: \<open>IndexError\<close> on an empty list.\<close>

definition first_credit_name :: "credit list \<Rightarrow> exn + string" where
  "first_credit_name cs =
     (case cs of
        [] \<Rightarrow> Inl (Exn IndexError ''list index out of range'')
      | c # _ \<Rightarrow> Inr (opt_or (cr_name c) []))"

text \<open>The loop that scores the releases; \<open>best\<close> and \<open>score\<close> are \<open>best_release\<close> and
  \<open>best_score\<close>.\<close>

fun best_release_loop ::
  "world \<Rightarrow> string \<Rightarrow> string \<Rightarrow> release list \<Rightarrow> release option \<Rightarrow> rat
    \<Rightarrow> exn + release option \<times> rat" where
  "best_release_loop w artist album [] best score = Inr (best, score)"
| "best_release_loop w artist album (r # rs) best score =
     (let album_score = w_similarity w (lower album) (lower (opt_or (rel_title r) []))
      in case (case rel_artist_credit r of
                 None \<Rightarrow> Inr 0
               | Some cs \<Rightarrow>
                   (case first_credit_name cs of
                      Inl e \<Rightarrow> Inl e
                    | Inr release_artist \<Rightarrow>
                        Inr (w_similarity w (lower artist) (lower release_artist)))) of
           Inl e \<Rightarrow> Inl e
         | Inr artist_score \<Rightarrow>
             (let total_score = (album_score + artist_score) / 2
              in if total_score > score
                 then best_release_loop w artist album rs (Some r) total_score
                 else best_release_loop w artist album rs best score))"

definition track_info :: "string \<Rightarrow> string \<Rightarrow> release \<Rightarrow> string \<Rightarrow> mb_track \<Rightarrow> metadata" where
  "track_info artist album best_release release_id t =
     [ (''position'', opt_or (tr_position t) []),
       (''title'', (case tr_recording t of
                      Some rc \<Rightarrow> opt_or (rr_title rc) []
                    | None \<Rightarrow> opt_or (tr_title t) [])),
       (''length'', opt_or (tr_length t) []),
       (''artist'', artist),
       (''album'', opt_or (rel_title best_release) album),
       (''date'', opt_or (rel_date best_release) []),
       (''musicbrainz_albumid'', release_id) ]
     @ (case tr_recording t of
          Some rc \<Rightarrow> [(''musicbrainz_recordingid'', opt_or (rr_id rc) [])]
        | None \<Rightarrow> [])"

definition release_tracks ::
  "string \<Rightarrow> string \<Rightarrow> release \<Rightarrow> string \<Rightarrow> release_detail \<Rightarrow> metadata list" where
  "release_tracks artist album best_release release_id rel =
     concat (map (\<lambda>m. map (track_info artist album best_release release_id)
                          (opt_or (med_track_list m) []))
                 (opt_or (rd_medium_list rel) []))"

definition album_not_found :: "lookup_state \<Rightarrow> string \<Rightarrow> (exn + metadata list option) \<times> lookup_state" where
  "album_not_found st cache_key =
     (Inr None, st\<lparr>album_cache := (album_cache st)(cache_key \<mapsto> None)\<rparr>)"

text \<open>The part of the \<open>try\<close> block after the searches: \<open>result\<close> is the release list.\<close>

definition album_pick ::
  "world \<Rightarrow> lookup_state \<Rightarrow> string \<Rightarrow> string \<Rightarrow> string \<Rightarrow> release list
    \<Rightarrow> (exn + metadata list option) \<times> lookup_state" where
  "album_pick w st artist album cache_key result =
     (if result \<noteq> [] then
        (case best_release_loop w artist album result None 0 of
           Inl e \<Rightarrow> (Inl e, st)
         | Inr (best, best_score) \<Rightarrow>
             (case best of
                None \<Rightarrow> album_not_found st cache_key
              | Some best_release \<Rightarrow>
                  if release_truthy best_release \<and> best_score > 7 / 10 then
                    (case rel_id best_release of
                       None \<Rightarrow> (Inl (Exn KeyError ''id''), st)
                     | Some release_id \<Rightarrow>
                         (let st1 = rate_limit st;
                              st2 = emit (GetReleaseById release_id) st1
                          in case w_get_release_by_id w (trace st1) release_id of
                               Inl e \<Rightarrow> (Inl e, st2)
                             | Inr None \<Rightarrow> album_not_found st2 cache_key
                             | Inr (Some rel) \<Rightarrow>
                                 (let tracks = release_tracks artist album best_release release_id rel
                                  in (Inr (Some tracks),
                                      st2\<lparr>album_cache := (album_cache st2)(cache_key \<mapsto> Some tracks)\<rparr>))))
                  else album_not_found st cache_key))
      else album_not_found st cache_key)"

text \<open>The \<open>try\<close> block of \<open>search_album_tracks\<close>: \<open>Inl\<close> is an exception that reaches
  the \<open>except Exception\<close> of the function.\<close>

definition album_lookup ::
  "world \<Rightarrow> lookup_state \<Rightarrow> string \<Rightarrow> string \<Rightarrow> string
    \<Rightarrow> (exn + metadata list option) \<times> lookup_state" where
  "album_lookup w st artist album cache_key =
     (let st1 = rate_limit st;
          query = ''artist:'' @ [dq] @ artist @ [dq] @ '' AND release:'' @ [dq] @ album @ [dq];
          st2 = emit (SearchReleases query) st1
      in case w_search_releases w (trace st1) query of
           Inl e \<Rightarrow> (Inl e, st2)
         | Inr result \<Rightarrow>
             if result = [] then
               (let query2 = ''artist:'' @ artist @ '' AND release:'' @ album;
                    st3 = emit (SearchReleases query2) st2
                in case w_search_releases w (trace st2) query2 of
                     Inl e \<Rightarrow> (Inl e, st3)
                   | Inr result2 \<Rightarrow> album_pick w st3 artist album cache_key result2)
             else album_pick w st2 artist album cache_key result)"

definition search_album_tracks ::
  "world \<Rightarrow> lookup_state \<Rightarrow> string \<Rightarrow> string \<Rightarrow> (exn + metadata list option) \<times> lookup_state" where
  "search_album_tracks w st artist album =
     (if artist = [] \<or> album = [] then (Inr None, st)
      else let cache_key = album_key artist album
           in case album_cache st cache_key of
                Some cached \<Rightarrow> (Inr cached, st)
              | None \<Rightarrow>
                  (case album_lookup w st artist album cache_key of
                     (Inl e, st') \<Rightarrow>
                       (Inr None, st'\<lparr>album_cache := (album_cache st')(cache_key \<mapsto> None)\<rparr>)
                   | (Inr r, st') \<Rightarrow> (Inr r, st')))"

text \<open>\<open>search_track_by_position\<close>: first the track whose position is the number, then
  the track at that index.\<close>

definition position_int :: "metadata \<Rightarrow> int option" where
  \<comment> \<open>\<open>int(track.get('position', 0))\<close>, \<open>None\<close> for \<open>ValueError\<close>\<close>
  "position_int t = (case map_of t ''position'' of None \<Rightarrow> Some 0 | Some s \<Rightarrow> py_int s)"

fun find_position :: "metadata list \<Rightarrow> int \<Rightarrow> metadata option" where
  "find_position [] track_number = None"
| "find_position (t # ts) track_number =
     (case position_int t of
        None \<Rightarrow> find_position ts track_number
      | Some p \<Rightarrow> if p = track_number then Some t else find_position ts track_number)"

definition search_track_by_position ::
  "world \<Rightarrow> lookup_state \<Rightarrow> string \<Rightarrow> string \<Rightarrow> int \<Rightarrow> (exn + metadata option) \<times> lookup_state" where
  "search_track_by_position w st artist album track_number =
     (case search_album_tracks w st artist album of
        (Inl e, st') \<Rightarrow> (Inl e, st')
      | (Inr found, st') \<Rightarrow>
          (case found of
             None \<Rightarrow> (Inr None, st')
           | Some tracks \<Rightarrow>
               if tracks = [] then (Inr None, st')
               else (case find_position tracks track_number of
                       Some t \<Rightarrow> (Inr (Some t), st')
                     | None \<Rightarrow>
                         if 0 \<le> track_number - 1 \<and> track_number - 1 < int (length tracks)
                         then (Inr (Some (tracks ! nat (track_number - 1))), st')
                         else (Inr None, st'))))"

section \<open>Catalog track client\<close>

definition track_key :: "string \<Rightarrow> string \<Rightarrow> string \<Rightarrow> string" where
  "track_key artist album title = lower (''track_'' @ artist @ ''|'' @ album @ ''|'' @ title)"

definition search_strategies :: "string \<Rightarrow> string \<Rightarrow> string \<Rightarrow> string list" where
  "search_strategies artist album title =
    [ ''artist:'' @ [dq] @ artist @ [dq] @ '' AND recording:'' @ [dq] @ title @ [dq]
        @ (if album \<noteq> [] then '' AND release:'' @ [dq] @ album @ [dq] else []),
      ''artist:'' @ artist @ '' AND recording:'' @ title
        @ (if album \<noteq> [] then '' AND release:'' @ album else []),
      ''artist:'' @ artist @ '' AND recording:'' @ title,
      artist @ '' '' @ title ]"

definition recording_truthy :: "recording \<Rightarrow> bool" where
  "recording_truthy r =
     (rec_id r \<noteq> None \<or> rec_title r \<noteq> None \<or> rec_artist_credit r \<noteq> None \<or>
      rec_release_list r \<noteq> None \<or> rec_extra r)"

definition recording_score :: "world \<Rightarrow> string \<Rightarrow> string \<Rightarrow> string \<Rightarrow> recording \<Rightarrow> exn + rat" where
  "recording_score w artist album title r =
     (let title_score = w_similarity w (lower title) (lower (opt_or (rec_title r) []))
      in case (case rec_artist_credit r of
                 None \<Rightarrow> Inr 0
               | Some cs \<Rightarrow>
                   (case first_credit_name cs of
                      Inl e \<Rightarrow> Inl e
                    | Inr rec_artist \<Rightarrow> Inr (w_similarity w (lower artist) (lower rec_artist)))) of
           Inl e \<Rightarrow> Inl e
         | Inr artist_score \<Rightarrow>
             (let album_score =
                    (if album \<noteq> [] then
                       foldl (\<lambda>album_score release.
                                max album_score
                                  (w_similarity w (lower album) (lower (opt_or (rel_title release) []))))
                             0 (opt_or (rec_release_list r) [])
                     else 0)
              in Inr (title_score * (1 / 2) + artist_score * (3 / 10) + album_score * (2 / 10))))"

fun best_recording_loop ::
  "world \<Rightarrow> string \<Rightarrow> string \<Rightarrow> string \<Rightarrow> recording list \<Rightarrow> recording option \<Rightarrow> rat
    \<Rightarrow> exn + recording option \<times> rat" where
  "best_recording_loop w artist album title [] best score = Inr (best, score)"
| "best_recording_loop w artist album title (r # rs) best score =
     (case recording_score w artist album title r of
        Inl e \<Rightarrow> Inl e
      | Inr total_score \<Rightarrow>
          if total_score > score
          then best_recording_loop w artist album title rs (Some r) total_score
          else best_recording_loop w artist album title rs best score)"

definition extract_recording_metadata ::
  "recording \<Rightarrow> string \<Rightarrow> string \<Rightarrow> string \<Rightarrow> exn + metadata" where
  "extract_recording_metadata r fallback_artist fallback_album fallback_title =
     (let m = [ (''musicbrainz_recordingid'', opt_or (rec_id r) []),
                (''title'', opt_or (rec_title r) fallback_title),
                (''artist'', fallback_artist),
                (''album'', fallback_album) ]
      in case (case rec_artist_credit r of
                 None \<Rightarrow> Inr m
               | Some [] \<Rightarrow> Inl (Exn IndexError ''list index out of range'')
               | Some (artist_credit # _) \<Rightarrow>
                   (case cr_artist artist_credit of
                      None \<Rightarrow> Inr m
                    | Some a \<Rightarrow>
                        Inr (AList.update ''artist'' (opt_or (ar_name a) fallback_artist)
                              (AList.update ''musicbrainz_artistid'' (opt_or (ar_id a) []) m)))) of
           Inl e \<Rightarrow> Inl e
         | Inr m1 \<Rightarrow>
             (case rec_release_list r of
                None \<Rightarrow> Inr m1
              | Some [] \<Rightarrow> Inl (Exn IndexError ''list index out of range'')
              | Some (release # _) \<Rightarrow>
                  Inr (AList.update ''date'' (opt_or (rel_date release) [])
                        (AList.update ''album'' (opt_or (rel_title release) fallback_album)
                          (AList.update ''musicbrainz_albumid'' (opt_or (rel_id release) []) m1)))))"

text \<open>What one search strategy makes of its response: \<open>Inl\<close> an exception,
  \<open>Inr (Some m)\<close> the metadata of an accepted recording, \<open>Inr None\<close> no acceptable one.
  \<open>i\<close> is the index of the strategy.\<close>

definition strategy_result ::
  "world \<Rightarrow> string \<Rightarrow> string \<Rightarrow> string \<Rightarrow> nat \<Rightarrow> recording list \<Rightarrow> exn + metadata option" where
  "strategy_result w artist album title i result =
     (if result \<noteq> [] then
        (case best_recording_loop w artist album title result None 0 of
           Inl e \<Rightarrow> Inl e
         | Inr (best, best_score) \<Rightarrow>
             (let min_threshold = (if i = 0 then 8 / 10 else 6 / 10)
              in case best of
                   None \<Rightarrow> Inr None
                 | Some best_recording \<Rightarrow>
                     if recording_truthy best_recording \<and> best_score \<ge> min_threshold then
                       (case extract_recording_metadata best_recording artist album title of
                          Inl e \<Rightarrow> Inl e
                        | Inr m \<Rightarrow> Inr (Some m))
                     else Inr None))
      else Inr None)"

text \<open>The loop over the strategies. An exception inside one strategy is caught there and
  the loop goes on (\<open>continue\<close>, without the \<open>_rate_limit\<close> between strategies). The
  result is \<open>Some m\<close> when a strategy returned \<open>m\<close>, after storing it in the cache.\<close>

fun strategy_loop ::
  "world \<Rightarrow> string \<Rightarrow> string \<Rightarrow> string \<Rightarrow> string \<Rightarrow> nat \<Rightarrow> string list \<Rightarrow> lookup_state
    \<Rightarrow> metadata option \<times> lookup_state" where
  "strategy_loop w artist album title cache_key i [] st = (None, st)"
| "strategy_loop w artist album title cache_key i (query # qs) st =
     (let st1 = emit (SearchRecordings query) st
      in case w_search_recordings w (trace st) query of
           Inl e \<Rightarrow> strategy_loop w artist album title cache_key (Suc i) qs st1
         | Inr result \<Rightarrow>
             (case strategy_result w artist album title i result of
                Inl e \<Rightarrow> strategy_loop w artist album title cache_key (Suc i) qs st1
              | Inr (Some m) \<Rightarrow> (Some m, st1\<lparr>cache := (cache st1)(cache_key \<mapsto> Some m)\<rparr>)
              | Inr None \<Rightarrow>
                  strategy_loop w artist album title cache_key (Suc i) qs
                    (if i < length (search_strategies artist album title) - 1
                     then rate_limit st1 else st1)))"

text \<open>\<open>search_musicbrainz_individual\<close>. Everything that can raise is inside the \<open>try\<close> of
  one strategy, so the outer \<open>except\<close> is never reached.\<close>

definition search_musicbrainz_individual ::
  "world \<Rightarrow> lookup_state \<Rightarrow> string \<Rightarrow> string \<Rightarrow> string \<Rightarrow> (exn + metadata option) \<times> lookup_state" where
  "search_musicbrainz_individual w st artist album title =
     (if artist = [] \<or> title = [] then (Inr None, st)
      else let cache_key = track_key artist album title
           in case cache st cache_key of
                Some cached \<Rightarrow> (Inr cached, st)
              | None \<Rightarrow>
                  (case strategy_loop w artist album title cache_key 0
                          (search_strategies artist album title) (rate_limit st) of
                     (Some m, st') \<Rightarrow> (Inr (Some m), st')
                   | (None, st') \<Rightarrow> (Inr None, st'\<lparr>cache := (cache st')(cache_key \<mapsto> None)\<rparr>)))"

section \<open>Acoustic identification client\<close>

fun is_substring :: "string \<Rightarrow> string \<Rightarrow> bool" where
  \<comment> \<open>\<open>p in s\<close>\<close>
  "is_substring p [] = (p = [])"
| "is_substring p (c # cs) = (take (length p) (c # cs) = p \<or> is_substring p cs)"

definition exn_str :: "exn \<Rightarrow> string" where
  "exn_str e = (case e of Exn c msg \<Rightarrow> msg)"

definition exn_cls :: "exn \<Rightarrow> exn_class" where
  "exn_cls e = (case e of Exn c msg \<Rightarrow> c)"

definition fingerprint_key :: "audio_file \<Rightarrow> nat \<Rightarrow> string" where
  "fingerprint_key f sz = ''fingerprint_'' @ f_name f @ ''_'' @ str_nat sz"

definition fp_miss :: "lookup_state \<Rightarrow> string \<Rightarrow> lookup_state" where
  "fp_miss st cache_key = st\<lparr>fingerprint_cache := (fingerprint_cache st)(cache_key \<mapsto> None)\<rparr>"

definition fp_disable :: "lookup_state \<Rightarrow> lookup_state" where
  "fp_disable st = st\<lparr>fingerprint_enabled := False\<rparr>"

text \<open>The first result with a score above 0.8 and a recording.\<close>

fun first_acoustid_match :: "ac_result list \<Rightarrow> (ac_result \<times> ac_recording) option" where
  "first_acoustid_match [] = None"
| "first_acoustid_match (result # rs) =
     (if opt_or (ac_score result) 0 > 8 / 10 then
        (case opt_or (ac_recordings result) [] of
           [] \<Rightarrow> first_acoustid_match rs
         | recording # _ \<Rightarrow> Some (result, recording))
      else first_acoustid_match rs)"

text \<open>The track number from the mediums of the release: in each medium that has tracks,
  the first track with the id of the recording sets it (\<open>break\<close> leaves that medium only).\<close>

fun medium_track_number :: "string option \<Rightarrow> ac_medium list \<Rightarrow> metadata \<Rightarrow> metadata" where
  "medium_track_number rid [] m = m"
| "medium_track_number rid (medium # ms) m =
     (case find (\<lambda>track. at_id track = rid) (opt_or (am_tracks medium) []) of
        None \<Rightarrow> medium_track_number rid ms m
      | Some track \<Rightarrow>
          medium_track_number rid ms (AList.update ''track_number'' (opt_or (at_position track) []) m))"

definition acoustid_metadata :: "world \<Rightarrow> rat \<Rightarrow> ac_result \<Rightarrow> ac_recording \<Rightarrow> metadata" where
  "acoustid_metadata w duration result recording =
     (let m = [ (''title'', opt_or (ac_title recording) []),
                (''musicbrainz_recordingid'', opt_or (ac_id recording) []),
                (''duration'', w_str_float w duration),
                (''acoustid_score'', (case ac_score result of
                                        None \<Rightarrow> ''0''
                                      | Some sc \<Rightarrow> w_str_float w sc)) ];
          m1 = (case ac_artists recording of
                  Some (a # _) \<Rightarrow>
                    AList.update ''musicbrainz_artistid'' (opt_or (aa_id a) [])
                      (AList.update ''artist'' (opt_or (aa_name a) []) m)
                | _ \<Rightarrow> m)
      in case ac_releases recording of
           Some (release # _) \<Rightarrow>
             (let m2 = AList.update ''date'' (opt_or (ae_date release) [])
                         (AList.update ''musicbrainz_albumid'' (opt_or (ae_id release) [])
                           (AList.update ''album'' (opt_or (ae_title release) []) m1))
              in case ae_mediums release of
                   None \<Rightarrow> m2
                 | Some mediums \<Rightarrow> medium_track_number (ac_id recording) mediums m2)
         | _ \<Rightarrow> m1)"

text \<open>From \<open>acoustid.fingerprint_file\<close> on: the fingerprint and the lookup.\<close>

definition fingerprint_generate ::
  "world \<Rightarrow> lookup_state \<Rightarrow> audio_file \<Rightarrow> string \<Rightarrow> (exn + metadata option) \<times> lookup_state" where
  "fingerprint_generate w st f cache_key =
     (let st1 = emit (FingerprintFile (f_str f)) st
      in case w_fingerprint_file w (trace st) (f_str f) of
           Inl e \<Rightarrow>
             (Inr None,
              fp_miss (if is_substring ''fpcalc'' (lower (exn_str e)) then fp_disable st1 else st1)
                cache_key)
         | Inr (duration, fingerprint) \<Rightarrow>
             if fingerprint = [] then (Inr None, fp_miss st1 cache_key)
             else
               (let st2 = emit (AcoustidLookup fingerprint) st1
                in case w_acoustid_lookup w (trace st1) fingerprint duration of
                     Inl e \<Rightarrow> (Inr None, fp_miss st2 cache_key)
                   | Inr results \<Rightarrow>
                       if ac_status results = Some ''ok'' \<and> ac_results results \<noteq> [] then
                         (case first_acoustid_match (ac_results results) of
                            Some (result, recording) \<Rightarrow>
                              (let m = acoustid_metadata w duration result recording
                               in (Inr (Some m),
                                   st2\<lparr>fingerprint_cache := (fingerprint_cache st2)(cache_key \<mapsto> Some m)\<rparr>))
                          | None \<Rightarrow> (Inr None, fp_miss st2 cache_key))
                       else (Inr None, fp_miss st2 cache_key)))"

text \<open>The outer \<open>try\<close> block: the probe of \<open>fpcalc\<close>, then the rest. \<open>Inl\<close> is an
  exception of the first probe that its \<open>except\<close> clause does not name; it reaches the
  outer \<open>except Exception\<close>.\<close>

definition probe_caught :: "exn \<Rightarrow> bool" where
  "probe_caught e =
     (exn_cls e = TimeoutExpired \<or> exn_cls e = FileNotFoundError \<or> exn_cls e = CalledProcessError)"

definition fingerprint_try ::
  "world \<Rightarrow> lookup_state \<Rightarrow> audio_file \<Rightarrow> string \<Rightarrow> (exn + metadata option) \<times> lookup_state" where
  "fingerprint_try w st f cache_key =
     (let st1 = emit FpcalcVersion st
      in case w_fpcalc_version w (trace st) of
           Inr u \<Rightarrow> fingerprint_generate w st1 f cache_key
         | Inl e \<Rightarrow>
             if probe_caught e then
               (let st2 = emit Fpcalc st1
                in case w_fpcalc w (trace st1) of
                     Inr stderr \<Rightarrow>
                       if \<not> is_substring ''No input files'' stderr
                       then (Inr None, fp_miss (fp_disable st2) cache_key)
                       else fingerprint_generate w st2 f cache_key
                   | Inl e2 \<Rightarrow> (Inr None, fp_miss (fp_disable st2) cache_key))
             else (Inl e, st1))"

text \<open>\<open>audio_fingerprint_lookup\<close>. The cache key needs the size of the file, and
  \<open>file_path.stat()\<close> is called before the \<open>try\<close>: what it raises leaves the function.\<close>

definition audio_fingerprint_lookup ::
  "world \<Rightarrow> lookup_state \<Rightarrow> audio_file \<Rightarrow> (exn + metadata option) \<times> lookup_state" where
  "audio_fingerprint_lookup w st f =
     (if \<not> fingerprint_enabled st then (Inr None, st)
      else case f_stat_size f of
             Inl e \<Rightarrow> (Inl e, st)
           | Inr sz \<Rightarrow>
               (let cache_key = fingerprint_key f sz
                in case fingerprint_cache st cache_key of
                     Some cached \<Rightarrow> (Inr cached, st)
                   | None \<Rightarrow>
                       (case fingerprint_try w st f cache_key of
                          (Inl e, st') \<Rightarrow> (Inr None, fp_miss st' cache_key)
                        | (Inr r, st') \<Rightarrow> (Inr r, st'))))"

section \<open>Text search client\<close>

definition lastfm_key :: "string \<Rightarrow> string \<Rightarrow> string \<Rightarrow> string" where
  "lastfm_key artist title album = lower (''lastfm_'' @ artist @ ''|'' @ title @ ''|'' @ album)"

definition or_str :: "string \<Rightarrow> string \<Rightarrow> string" where
  \<comment> \<open>\<open>a or b\<close> on strings\<close>
  "or_str a b = (if a \<noteq> [] then a else b)"

definition lastfm_miss :: "lookup_state \<Rightarrow> string \<Rightarrow> lookup_state" where
  "lastfm_miss st cache_key = st\<lparr>lastfm_cache := (lastfm_cache st)(cache_key \<mapsto> None)\<rparr>"

definition lastfm_store :: "lookup_state \<Rightarrow> string \<Rightarrow> metadata \<Rightarrow> lookup_state" where
  "lastfm_store st cache_key m = st\<lparr>lastfm_cache := (lastfm_cache st)(cache_key \<mapsto> Some m)\<rparr>"

definition track_artist_name :: "lastfm_track \<Rightarrow> string \<Rightarrow> exn + string" where
  \<comment> \<open>\<open>track.get_artist().get_name() if track.get_artist() else dflt\<close>\<close>
  "track_artist_name track dflt =
     (case lt_get_artist track of
        Inl e \<Rightarrow> Inl e
      | Inr None \<Rightarrow> Inr dflt
      | Inr (Some a) \<Rightarrow> la_get_name a)"

definition with_album :: "string \<Rightarrow> metadata \<Rightarrow> metadata" where
  \<comment> \<open>\<open>if album: metadata['album'] = album\<close>\<close>
  "with_album album m = (if album \<noteq> [] then AList.update ''album'' album m else m)"

definition album_info :: "lastfm_track \<Rightarrow> string \<Rightarrow> metadata \<Rightarrow> metadata" where
  "album_info track album m =
     (case lt_get_album track of
        Inl e \<Rightarrow> with_album album m
      | Inr None \<Rightarrow> with_album album m
      | Inr (Some track_album) \<Rightarrow>
          (case lb_get_name track_album of
             Inl e \<Rightarrow> with_album album m
           | Inr album_title \<Rightarrow>
               if album_title \<noteq> [] then
                 (let m1 = AList.update ''album'' album_title m
                  in case lb_get_url track_album of
                       Inl e \<Rightarrow> with_album album m1
                     | Inr url \<Rightarrow> AList.update ''lastfm_album_url'' (or_str url []) m1)
               else m))"

definition count_str :: "exn + nat \<Rightarrow> string" where
  \<comment> \<open>\<open>str(n) if n else '0'\<close>, and \<open>'0'\<close> when the call raised\<close>
  "count_str r = (case r of Inl e \<Rightarrow> ''0'' | Inr n \<Rightarrow> if n \<noteq> 0 then str_nat n else ''0'')"

text \<open>The inner \<open>try\<close> of the direct search up to the album: the name, the artist and
  the URL of the track may raise; the play count, the listener count and the album are
  best effort.\<close>

definition track_details :: "lastfm_track \<Rightarrow> string \<Rightarrow> string \<Rightarrow> string \<Rightarrow> exn + metadata" where
  "track_details track artist title album =
     (case lt_get_name track of
        Inl e \<Rightarrow> Inl e
      | Inr track_title \<Rightarrow>
          (case track_artist_name track artist of
             Inl e \<Rightarrow> Inl e
           | Inr track_artist \<Rightarrow>
               (case lt_get_url track of
                  Inl e \<Rightarrow> Inl e
                | Inr track_url \<Rightarrow>
                    (let m = [ (''title'', or_str track_title title),
                               (''artist'', or_str track_artist artist),
                               (''lastfm_url'', or_str track_url []) ];
                         m1 = AList.update ''playcount'' (count_str (lt_get_playcount track)) m;
                         m2 = AList.update ''listeners'' (count_str (lt_get_listener_count track)) m1
                     in Inr (album_info track album m2)))))"

fun tag_names :: "(exn + string) list \<Rightarrow> exn + string list" where
  "tag_names [] = Inr []"
| "tag_names (t # ts) =
     (case t of
        Inl e \<Rightarrow> Inl e
      | Inr name \<Rightarrow> (case tag_names ts of Inl e \<Rightarrow> Inl e | Inr names \<Rightarrow> Inr (name # names)))"

fun join :: "string \<Rightarrow> string list \<Rightarrow> string" where
  "join sep [] = []"
| "join sep [x] = x"
| "join sep (x # y # ys) = x @ sep @ join sep (y # ys)"

definition tags_info :: "lastfm_track \<Rightarrow> metadata \<Rightarrow> metadata" where
  "tags_info track m =
     (case lt_get_top_tags track of
        Inl e \<Rightarrow> m
      | Inr tags \<Rightarrow>
          if tags \<noteq> [] then
            (case tag_names tags of
               Inl e \<Rightarrow> m
             | Inr genre_list \<Rightarrow>
                 if genre_list \<noteq> [] then AList.update ''genre'' (join '', '' genre_list) m else m)
          else m)"

definition confidence :: "world \<Rightarrow> string \<Rightarrow> string \<Rightarrow> metadata \<Rightarrow> rat" where
  "confidence w artist title m =
     (let title_similarity = w_similarity w (lower title) (lower (get_or m ''title'' []));
          artist_similarity = w_similarity w (lower artist) (lower (get_or m ''artist'' []))
      in (title_similarity + artist_similarity) / 2)"

text \<open>The direct search: \<open>Some m\<close> when it returned \<open>m\<close> (stored in the cache), \<open>None\<close>
  when the function goes on to the artist correction, which is after a track that was not
  found, an error in the details, or a confidence of 0.8 or less.\<close>

definition lastfm_direct ::
  "world \<Rightarrow> lookup_state \<Rightarrow> string \<Rightarrow> string \<Rightarrow> string \<Rightarrow> string
    \<Rightarrow> metadata option \<times> lookup_state" where
  "lastfm_direct w st artist title album cache_key =
     (let st1 = emit (LastfmGetTrack artist title) st
      in case w_lastfm_get_track w (trace st) artist title of
           Inl e \<Rightarrow> (None, st1)
         | Inr track \<Rightarrow>
             (case track_details track artist title album of
                Inl e \<Rightarrow> (None, st1)
              | Inr m \<Rightarrow>
                  (let st2 = emit (Sleep 200) st1;
                       m1 = tags_info track m;
                       c = confidence w artist title m1;
                       m2 = AList.update ''lastfm_confidence'' (w_str_float w c) m1
                   in if c > 8 / 10 then (Some m2, lastfm_store st2 cache_key m2)
                      else (None, st2))))"

text \<open>The artist correction, tried when the direct search returned nothing. Its result
  is returned and stored as it is.\<close>

definition lastfm_correction ::
  "world \<Rightarrow> lookup_state \<Rightarrow> string \<Rightarrow> string \<Rightarrow> string \<Rightarrow> string
    \<Rightarrow> metadata option \<times> lookup_state" where
  "lastfm_correction w st artist title album cache_key =
     (let st1 = emit (LastfmGetArtist artist) st
      in case w_lastfm_get_artist w (trace st) artist of
           Inl e \<Rightarrow> (None, st1)
         | Inr artist_obj \<Rightarrow>
             (case la_get_correction artist_obj of
                Inl e \<Rightarrow> (None, st1)
              | Inr corrected_artist \<Rightarrow>
                  if corrected_artist \<noteq> [] \<and> corrected_artist \<noteq> artist then
                    (let st2 = emit (LastfmGetTrack corrected_artist title) st1
                     in case w_lastfm_get_track w (trace st1) corrected_artist title of
                          Inl e \<Rightarrow> (None, st2)
                        | Inr track \<Rightarrow>
                            (case lt_get_name track of
                               Inl e \<Rightarrow> (None, st2)
                             | Inr track_title \<Rightarrow>
                                 (case track_artist_name track corrected_artist of
                                    Inl e \<Rightarrow> (None, st2)
                                  | Inr track_artist \<Rightarrow>
                                      (let m = [ (''title'', or_str track_title title),
                                                 (''artist'', or_str track_artist corrected_artist),
                                                 (''album'', album),
                                                 (''lastfm_corrected'', ''true'') ]
                                       in (Some m, lastfm_store st2 cache_key m)))))
                  else (None, st1)))"

text \<open>\<open>lastfm_search\<close>. After the guard and the cache, \<open>time.sleep(0.3)\<close>, the direct
  search, the correction, and the no-match entry. Every call that can raise is inside
  one of the inner \<open>try\<close> blocks, so the outer \<open>except\<close> is never reached.\<close>

definition lastfm_search ::
  "world \<Rightarrow> lookup_state \<Rightarrow> string \<Rightarrow> string \<Rightarrow> string \<Rightarrow> (exn + metadata option) \<times> lookup_state" where
  "lastfm_search w st artist title album =
     (if \<not> lastfm_enabled st \<or> artist = [] \<or> title = [] then (Inr None, st)
      else let cache_key = lastfm_key artist title album
           in case lastfm_cache st cache_key of
                Some cached \<Rightarrow> (Inr cached, st)
              | None \<Rightarrow>
                  (case lastfm_direct w (emit (Sleep 300) st) artist title album cache_key of
                     (Some m, st1) \<Rightarrow> (Inr (Some m), st1)
                   | (None, st1) \<Rightarrow>
                       (case lastfm_correction w st1 artist title album cache_key of
                          (Some m, st2) \<Rightarrow> (Inr (Some m), st2)
                        | (None, st2) \<Rightarrow> (Inr None, lastfm_miss st2 cache_key))))"

section \<open>Resolution strategy\<close>

definition number_given :: "int option \<Rightarrow> bool" where
  \<comment> \<open>the truth value of \<open>track_number\<close>\<close>
  "number_given track_number = (case track_number of None \<Rightarrow> False | Some n \<Rightarrow> n \<noteq> 0)"

definition number_str :: "int option \<Rightarrow> string" where
  \<comment> \<open>\<open>str(track_number).zfill(2)\<close>\<close>
  "number_str track_number = (case track_number of None \<Rightarrow> ''None'' | Some n \<Rightarrow> zfill2 (str_int n))"

definition backfill :: "int option \<Rightarrow> metadata \<Rightarrow> metadata" where
  \<comment> \<open>\<open>if track_number and not m.get('track_number'): m['track_number'] = ...\<close>\<close>
  "backfill track_number m =
     (if number_given track_number \<and> \<not> has_value m ''track_number''
      then AList.update ''track_number'' (number_str track_number) m else m)"

text \<open>A call of the fingerprint client from \<open>get_metadata\<close>: \<open>Inr (Some m)\<close> is the record
  that \<open>get_metadata\<close> returns, \<open>Inr None\<close> means that the next strategy is tried. The
  record returned by the client is the object held by the cache, so the track number
  written into it is in the cache as well.\<close>

definition fingerprint_step ::
  "world \<Rightarrow> lookup_state \<Rightarrow> int option \<Rightarrow> audio_file \<Rightarrow> (exn + metadata option) \<times> lookup_state" where
  "fingerprint_step w st track_number f =
     (case audio_fingerprint_lookup w st f of
        (Inl e, st') \<Rightarrow> (Inl e, st')
      | (Inr None, st') \<Rightarrow> (Inr None, st')
      | (Inr (Some m), st') \<Rightarrow>
          if m \<noteq> [] then
            (let m' = backfill track_number m
             in (Inr (Some m'),
                 (case f_stat_size f of
                    Inl e \<Rightarrow> st'
                  | Inr sz \<Rightarrow>
                      st'\<lparr>fingerprint_cache :=
                             (fingerprint_cache st')(fingerprint_key f sz \<mapsto> Some m')\<rparr>)))
          else (Inr None, st'))"

definition lastfm_step ::
  "world \<Rightarrow> lookup_state \<Rightarrow> string \<Rightarrow> string \<Rightarrow> string \<Rightarrow> int option
    \<Rightarrow> (exn + metadata option) \<times> lookup_state" where
  "lastfm_step w st artist title album track_number =
     (case lastfm_search w st artist title album of
        (Inl e, st') \<Rightarrow> (Inl e, st')
      | (Inr None, st') \<Rightarrow> (Inr None, st')
      | (Inr (Some m), st') \<Rightarrow>
          if m \<noteq> [] then
            (let m' = backfill track_number m
             in (Inr (Some m'), lastfm_store st' (lastfm_key artist title album) m'))
          else (Inr None, st'))"

text \<open>Strategy 6, the record built from the directory structure, merged with the
  existing metadata.\<close>

definition merge_existing :: "metadata \<Rightarrow> metadata \<Rightarrow> metadata" where
  "merge_existing existing fallback =
     foldl (\<lambda>fb (key, v). if v \<noteq> [] \<and> \<not> has_value fb key then AList.update key v fb else fb)
           fallback existing"

definition fallback_metadata ::
  "string \<Rightarrow> string \<Rightarrow> string \<Rightarrow> int option \<Rightarrow> metadata option \<Rightarrow> metadata" where
  "fallback_metadata artist album title track_number existing_metadata =
     (let fb = [ (''title'', title),
                 (''artist'', artist),
                 (''album'', album),
                 (''track_number'', if number_given track_number then number_str track_number else []) ]
      in case existing_metadata of
           None \<Rightarrow> fb
         | Some existing \<Rightarrow> if existing \<noteq> [] then merge_existing existing fb else fb)"

text \<open>Strategy 4, for a filename that is not generic: the track search, then the
  fingerprint, then Last.fm. \<open>Inr None\<close> means that nothing was returned.\<close>

definition non_generic_rest ::
  "world \<Rightarrow> lookup_state \<Rightarrow> string \<Rightarrow> string \<Rightarrow> string \<Rightarrow> int option \<Rightarrow> audio_file option
    \<Rightarrow> (exn + metadata option) \<times> lookup_state" where
  "non_generic_rest w st artist album title track_number file_path =
     (case (case file_path of
              None \<Rightarrow> (Inr None, st)
            | Some f \<Rightarrow>
                if fingerprint_enabled st then fingerprint_step w st track_number f
                else (Inr None, st)) of
        (Inl e, st1) \<Rightarrow> (Inl e, st1)
      | (Inr (Some fingerprint_metadata), st1) \<Rightarrow> (Inr (Some fingerprint_metadata), st1)
      | (Inr None, st1) \<Rightarrow>
          if lastfm_enabled st1 then lastfm_step w st1 artist title album track_number
          else (Inr None, st1))"

definition non_generic_lookup ::
  "world \<Rightarrow> lookup_state \<Rightarrow> string \<Rightarrow> string \<Rightarrow> string \<Rightarrow> int option \<Rightarrow> audio_file option
    \<Rightarrow> (exn + metadata option) \<times> lookup_state" where
  "non_generic_lookup w st artist album title track_number file_path =
     (case search_musicbrainz_individual w st artist album title of
        (Inl e, st1) \<Rightarrow> (Inl e, st1)
      | (Inr (Some track_metadata), st1) \<Rightarrow>
          if track_metadata \<noteq> [] then (Inr (Some track_metadata), st1)
          else non_generic_rest w st1 artist album title track_number file_path
      | (Inr None, st1) \<Rightarrow> non_generic_rest w st1 artist album title track_number file_path)"

text \<open>Strategy 3, the album-based lookup of a generic file.\<close>

definition position_step ::
  "world \<Rightarrow> lookup_state \<Rightarrow> string \<Rightarrow> string \<Rightarrow> int option
    \<Rightarrow> (exn + metadata option) \<times> lookup_state" where
  "position_step w st artist album track_number =
     (case track_number of
        None \<Rightarrow> (Inr None, st)
      | Some n \<Rightarrow>
          (case search_track_by_position w st artist album n of
             (Inl e, st1) \<Rightarrow> (Inl e, st1)
           | (Inr (Some album_metadata), st1) \<Rightarrow>
               if album_metadata \<noteq> [] then (Inr (Some album_metadata), st1) else (Inr None, st1)
           | (Inr None, st1) \<Rightarrow> (Inr None, st1)))"

text \<open>Strategies 2 to 6 of \<open>get_metadata\<close>, in the order of the source.\<close>

definition lookup_strategies ::
  "world \<Rightarrow> lookup_state \<Rightarrow> string \<Rightarrow> string \<Rightarrow> string \<Rightarrow> int option \<Rightarrow> bool
    \<Rightarrow> audio_file option \<Rightarrow> metadata option \<Rightarrow> (exn + metadata) \<times> lookup_state" where
  "lookup_strategies w st artist album title track_number is_generic file_path existing_metadata =
     (case (case file_path of
              None \<Rightarrow> (Inr None, st)
            | Some f \<Rightarrow>
                if is_generic \<and> fingerprint_enabled st then fingerprint_step w st track_number f
                else (Inr None, st)) of
        (Inl e, st1) \<Rightarrow> (Inl e, st1)
      | (Inr (Some fingerprint_metadata), st1) \<Rightarrow> (Inr fingerprint_metadata, st1)
      | (Inr None, st1) \<Rightarrow>
          (case (if is_generic \<and> number_given track_number \<and> artist \<noteq> [] \<and> album \<noteq> []
                 then position_step w st1 artist album track_number
                 else (Inr None, st1)) of
             (Inl e, st2) \<Rightarrow> (Inl e, st2)
           | (Inr (Some album_metadata), st2) \<Rightarrow> (Inr album_metadata, st2)
           | (Inr None, st2) \<Rightarrow>
               (case (if \<not> is_generic
                      then non_generic_lookup w st2 artist album title track_number file_path
                      else (Inr None, st2)) of
                  (Inl e, st3) \<Rightarrow> (Inl e, st3)
                | (Inr (Some m), st3) \<Rightarrow> (Inr m, st3)
                | (Inr None, st3) \<Rightarrow>
                    (Inr (fallback_metadata artist album title track_number existing_metadata), st3))))"

definition existing_complete :: "metadata option \<Rightarrow> bool" where
  \<comment> \<open>\<open>existing_metadata and self._is_metadata_complete(existing_metadata)\<close>\<close>
  "existing_complete existing_metadata =
     (case existing_metadata of
        None \<Rightarrow> False
      | Some existing \<Rightarrow> existing \<noteq> [] \<and> is_metadata_complete existing)"

definition get_metadata ::
  "world \<Rightarrow> lookup_state \<Rightarrow> string \<Rightarrow> string \<Rightarrow> string \<Rightarrow> int option \<Rightarrow> bool
    \<Rightarrow> audio_file option \<Rightarrow> metadata option \<Rightarrow> (exn + metadata) \<times> lookup_state" where
  "get_metadata w st artist album title track_number is_generic file_path existing_metadata =
     (if existing_complete existing_metadata
      then (Inr (opt_or existing_metadata []), st)
      else lookup_strategies w st artist album title track_number is_generic file_path
             existing_metadata)"

section \<open>Worlds and predicates used in the statements\<close>

text \<open>A world in which every external call raises.\<close>

definition unavailable :: exn where
  "unavailable = Exn OtherException ''service unavailable''"

definition failing_world :: world where
  "failing_world =
     \<lparr> w_similarity = (\<lambda>a b. 0), w_str_float = (\<lambda>r. ''0.0''),
       w_search_releases = (\<lambda>h q. Inl unavailable),
       w_get_release_by_id = (\<lambda>h i. Inl unavailable),
       w_search_recordings = (\<lambda>h q. Inl unavailable),
       w_fpcalc_version = (\<lambda>h. Inl unavailable),
       w_fpcalc = (\<lambda>h. Inl unavailable),
       w_fingerprint_file = (\<lambda>h p. Inl unavailable),
       w_acoustid_lookup = (\<lambda>h f d. Inl unavailable),
       w_lastfm_get_track = (\<lambda>h a t. Inl unavailable),
       w_lastfm_get_artist = (\<lambda>h a. Inl unavailable) \<rparr>"

text \<open>The events of the text search client: its two requests, and \<open>time.sleep\<close>, which
  no other client calls.\<close>

fun is_lastfm_event :: "event \<Rightarrow> bool" where
  "is_lastfm_event (LastfmGetTrack a t) = True"
| "is_lastfm_event (LastfmGetArtist a) = True"
| "is_lastfm_event (Sleep n) = True"
| "is_lastfm_event e = False"

text \<open>\<open>no_text_search st st'\<close>: from \<open>st\<close> to \<open>st'\<close> the trace has only grown, by events
  that are not of the text search client, and the cache of that client is the same.\<close>

definition no_text_search :: "lookup_state \<Rightarrow> lookup_state \<Rightarrow> bool" where
  "no_text_search st st' =
     (lastfm_cache st' = lastfm_cache st \<and>
      take (length (trace st)) (trace st') = trace st \<and>
      list_all (\<lambda>e. \<not> is_lastfm_event e) (drop (length (trace st)) (trace st')))"

text \<open>Every external call raises; no cache holds a record; the size of the file, when a
  file is given, can be read; the existing metadata has a value for a key.\<close>

definition all_calls_raise :: "world \<Rightarrow> bool" where
  "all_calls_raise w =
     ((\<forall>h q. isl (w_search_releases w h q)) \<and> (\<forall>h i. isl (w_get_release_by_id w h i)) \<and>
      (\<forall>h q. isl (w_search_recordings w h q)) \<and> (\<forall>h. isl (w_fpcalc_version w h)) \<and>
      (\<forall>h. isl (w_fpcalc w h)) \<and> (\<forall>h p. isl (w_fingerprint_file w h p)) \<and>
      (\<forall>h f d. isl (w_acoustid_lookup w h f d)) \<and> (\<forall>h a t. isl (w_lastfm_get_track w h a t)) \<and>
      (\<forall>h a. isl (w_lastfm_get_artist w h a)))"

definition negative_only :: "(string \<rightharpoonup> 'a option) \<Rightarrow> bool" where
  "negative_only c = (\<forall>k. c k = None \<or> c k = Some None)"

definition no_cached_hit :: "lookup_state \<Rightarrow> bool" where
  "no_cached_hit st =
     (negative_only (cache st) \<and> negative_only (album_cache st) \<and>
      negative_only (fingerprint_cache st) \<and> negative_only (lastfm_cache st))"

definition stat_ok :: "audio_file option \<Rightarrow> bool" where
  "stat_ok file_path = (case file_path of None \<Rightarrow> True | Some f \<Rightarrow> \<not> isl (f_stat_size f))"

definition existing_has :: "metadata option \<Rightarrow> string \<Rightarrow> bool" where
  "existing_has existing_metadata key =
     (case existing_metadata of
        None \<Rightarrow> False
      | Some existing \<Rightarrow> list_ex (\<lambda>(k, v). k = key \<and> v \<noteq> []) existing)"

text \<open>Concrete inputs and worlds for the examples: a file, a world whose catalog searches
  find nothing, a world whose first recording search fails and whose later ones find a
  recording, and a world in which Last.fm knows the track under a corrected artist.
  \<open>external_requests\<close> are the events of a trace that are requests to a service or a
  tool (not waits).\<close>

definition sample_file :: audio_file where
  "sample_file = \<lparr> f_name = ''Track 01.wav'', f_str = ''/music/Queen/Opera/Track 01.wav'',
                    f_stat_size = Inr 4096 \<rparr>"






definition queen_track :: lastfm_track where
  "queen_track =
     \<lparr> lt_get_name = Inr ''Bohemian Rhapsody'',
       lt_get_artist = Inr (Some \<lparr> la_get_name = Inr ''Queen'', la_get_correction = Inr [] \<rparr>),
       lt_get_url = Inr ''https://www.last.fm/music/Queen/_/Bohemian+Rhapsody'',
       lt_get_playcount = Inr 1000, lt_get_listener_count = Inr 500,
       lt_get_album = Inr None, lt_get_top_tags = Inr [Inr ''rock''] \<rparr>"

definition correction_world :: world where
  "correction_world =
     failing_world \<lparr> w_similarity := (\<lambda>a b. if a = b then 1 else 0),
                     w_lastfm_get_track := (\<lambda>h a t. Inr queen_track),
                     w_lastfm_get_artist :=
                       (\<lambda>h a. Inr \<lparr> la_get_name = Inr a, la_get_correction = Inr ''Queen'' \<rparr>) \<rparr>"

section \<open>Properties of the filename classifier and the path parser\<close>

lemma lower_char_idem: "lower_char (lower_char c) = lower_char c"
  unfolding lower_char_def Let_def by auto

lemma lower_idem: "lower (lower s) = lower s"
  by (simp add: lower_def lower_char_idem)

text \<open>
  C8. The classifier answers true for "Track 01", "05. Track05" and "Pista 03" and false
  for "Bohemian Rhapsody". It is a function of the lower-cased name only (so the case of
  the letters does not matter), and as a HOL function it has no effect but its result.
\<close>

theorem is_generic_filename_examples:
  "is_generic_filename ''Track 01'' \<and> is_generic_filename ''05. Track05'' \<and>
   is_generic_filename ''Pista 03'' \<and> \<not> is_generic_filename ''Bohemian Rhapsody'' \<and>
   is_generic_filename (lower s) = is_generic_filename s"
proof -
  have a: "is_generic_filename ''Track 01''" by code_simp
  have b: "is_generic_filename ''05. Track05''" by code_simp
  have c: "is_generic_filename ''Pista 03''" by code_simp
  have d: "\<not> is_generic_filename ''Bohemian Rhapsody''" by code_simp
  have e: "is_generic_filename (lower s) = is_generic_filename s"
    by (simp add: is_generic_filename_def lower_idem)
  from a b c d e show ?thesis by blast
qed

theorem is_generic_filename_examples_witness:
  "is_generic_filename (lower ''PISTA 03'') = is_generic_filename ''PISTA 03'' \<and>
   is_generic_filename ''PISTA 03''"
proof -
  have "is_generic_filename ''PISTA 03''" by code_simp
  with is_generic_filename_examples [of "''PISTA 03''"] show ?thesis by blast
qed

text \<open>
  C9. When the number extracted from the filename is zero, the parser returns a record
  whose track number is the empty string and whose title is the filename (stem) as it
  is, only trimmed: zero is treated like no track number, and neither the zero padding
  nor the cleaning of a generic title is applied.
\<close>

theorem zero_track_number_is_absent:
  assumes "relative_to file_path source_path = Inr rel"
      and "extract_track_number (stem rel) = Some 0"
  shows "\<exists>pm. parse_directory_structure file_path source_path = Inr pm \<and>
           pm_track_number pm = [] \<and> pm_title pm = strip (stem rel)"
  using assms by (simp add: parse_directory_structure_def parse_relative_def Let_def)

theorem zero_track_number_is_absent_witness:
  "relative_to (posix_parts ''/music/Track 00.wav'') (posix_parts ''/music'') = Inr [''Track 00.wav''] \<and>
   extract_track_number (stem [''Track 00.wav'']) = Some 0 \<and>
   (\<exists>pm. parse_directory_structure (posix_parts ''/music/Track 00.wav'') (posix_parts ''/music'') = Inr pm \<and>
      pm_track_number pm = [] \<and> pm_title pm = ''Track 00'')"
proof -
  have r: "relative_to (posix_parts ''/music/Track 00.wav'') (posix_parts ''/music'') = Inr [''Track 00.wav'']"
    by code_simp
  have n: "extract_track_number (stem [''Track 00.wav'']) = Some 0" by code_simp
  have t: "strip (stem [''Track 00.wav'']) = ''Track 00''" by code_simp
  from zero_track_number_is_absent [OF r n] r n t show ?thesis by simp
qed

text \<open>
  C7. Claimed for the file /music/Queen/A Night at the Opera (1975)/04 Bohemian Rhapsody.wav
  under the root /music: artist "Queen", album "A Night at the Opera", year "1975", track
  number "04", title "Bohemian Rhapsody", not generic. The parser does not return that
  record: the name is not generic, so its leading number is not removed, and the title is
  "04 Bohemian Rhapsody".
\<close>

theorem queen_example_counterexample:
  "parse_directory_structure
     (posix_parts ''/music/Queen/A Night at the Opera (1975)/04 Bohemian Rhapsody.wav'')
     (posix_parts ''/music'')
   \<noteq> Inr \<lparr> pm_title = ''Bohemian Rhapsody'', pm_artist = ''Queen'',
           pm_album = ''A Night at the Opera'', pm_year = ''1975'',
           pm_track_number = ''04'', pm_is_generic = False \<rparr> \<and>
   map_sum id pm_title (parse_directory_structure
     (posix_parts ''/music/Queen/A Night at the Opera (1975)/04 Bohemian Rhapsody.wav'')
     (posix_parts ''/music'')) = Inr ''04 Bohemian Rhapsody''"
  by code_simp

text \<open>
  C7, amended. For that file the parser returns the artist "Queen", the album
  "A Night at the Opera", the track number "04", the title "04 Bohemian Rhapsody" (the
  number is removed from the title of a generic filename only), and the name is not
  generic.
\<close>

theorem queen_example_amended:
  "map_sum id (\<lambda>pm. (pm_artist pm, pm_album pm, pm_track_number pm, pm_title pm, pm_is_generic pm))
     (parse_directory_structure
       (posix_parts ''/music/Queen/A Night at the Opera (1975)/04 Bohemian Rhapsody.wav'')
       (posix_parts ''/music''))
   = Inr (''Queen'', ''A Night at the Opera'', ''04'', ''04 Bohemian Rhapsody'', False)"
  by code_simp

section \<open>Properties of the clients and of the resolution strategy\<close>

text \<open>
  C10. A client called without a field it requires returns no-match at once and leaves
  the state as it was: no external call and no wait (the trace is the same), no cache
  entry. The album client requires the artist and the album, the track client the artist
  and the title, the text client the artist and the title and that it is enabled.
\<close>

theorem missing_field_returns_at_once:
  "(artist = [] \<or> album = [] \<longrightarrow> search_album_tracks w st artist album = (Inr None, st)) \<and>
   (artist = [] \<or> title = [] \<longrightarrow>
      search_musicbrainz_individual w st artist album title = (Inr None, st)) \<and>
   (artist = [] \<or> title = [] \<or> \<not> lastfm_enabled st \<longrightarrow>
      lastfm_search w st artist title album = (Inr None, st))"
  by (auto simp: search_album_tracks_def search_musicbrainz_individual_def lastfm_search_def)

theorem missing_field_returns_at_once_witness:
  "search_album_tracks failing_world (init_state True False) [] ''Opera''
     = (Inr None, init_state True False) \<and>
   search_musicbrainz_individual failing_world (init_state True False) [] ''Opera'' ''Song''
     = (Inr None, init_state True False) \<and>
   lastfm_search failing_world (init_state True False) ''Queen'' ''Song'' ''Opera''
     = (Inr None, init_state True False)"
  using missing_field_returns_at_once
          [of "[]" "''Opera''" failing_world "init_state True False" "''Song''"]
        missing_field_returns_at_once
          [of "''Queen''" "''Opera''" failing_world "init_state True False" "''Song''"]
  by (simp add: init_state_def)

lemma is_metadata_complete_iff:
  "is_metadata_complete m =
     (has_value m ''title'' \<and> strip (get_or m ''title'' []) \<noteq> [] \<and>
      has_value m ''artist'' \<and> strip (get_or m ''artist'' []) \<noteq> [] \<and>
      has_value m ''album'' \<and> strip (get_or m ''album'' []) \<noteq> [] \<and>
      \<not> is_generic_filename (get_or m ''title'' []) \<and>
      (has_value m ''musicbrainz_recordingid'' \<or> has_value m ''musicbrainz_trackid''))"
  by (auto simp: is_metadata_complete_def essential_fields_def musicbrainz_fields_def)




section \<open>Helper lemmas on the clients\<close>

subsection \<open>What a client stores, and that it returns\<close>




lemma search_album_tracks_returns: "\<exists>res. fst (search_album_tracks w st artist album) = Inr res"
  by (auto simp: search_album_tracks_def Let_def split: option.splits sum.splits prod.splits)




lemma search_musicbrainz_individual_returns:
  "\<exists>res. fst (search_musicbrainz_individual w st artist album title) = Inr res"
  by (auto simp: search_musicbrainz_individual_def Let_def split: option.splits prod.splits)





lemma audio_fingerprint_lookup_returns:
  "\<not> fingerprint_enabled st \<or> \<not> isl (f_stat_size f) \<Longrightarrow>
     \<exists>res. fst (audio_fingerprint_lookup w st f) = Inr res"
  by (auto simp: audio_fingerprint_lookup_def Let_def split: option.splits sum.splits prod.splits)





lemma lastfm_search_returns:
  "\<exists>res. fst (lastfm_search w st artist title album) = Inr res"
  by (auto simp: lastfm_search_def Let_def split: option.splits prod.splits)


subsection \<open>\<open>get_metadata\<close> returns a record\<close>

lemma returns_pair: "\<exists>res. fst p = Inr res \<Longrightarrow> \<exists>res st'. p = (Inr res, st')"
  by (cases p) auto

lemma search_track_by_position_returns:
  "\<exists>res st'. search_track_by_position w st artist album n = (Inr res, st')"
proof -
  obtain res st1 where "search_album_tracks w st artist album = (Inr res, st1)"
    using returns_pair [OF search_album_tracks_returns] by blast
  then show ?thesis
    by (auto simp: search_track_by_position_def split: option.splits)
qed

lemma position_step_returns:
  "\<exists>res st'. position_step w st artist album track_number = (Inr res, st')"
proof (cases track_number)
  case None
  then show ?thesis by (simp add: position_step_def)
next
  case (Some n)
  obtain res st1 where "search_track_by_position w st artist album n = (Inr res, st1)"
    using search_track_by_position_returns by blast
  with Some show ?thesis by (auto simp: position_step_def split: option.splits)
qed

lemma fingerprint_step_returns:
  assumes "\<not> isl (f_stat_size f)"
  shows "\<exists>res st'. fingerprint_step w st track_number f = (Inr res, st')"
proof -
  obtain res st1 where "audio_fingerprint_lookup w st f = (Inr res, st1)"
    using returns_pair [OF audio_fingerprint_lookup_returns] assms by blast
  then show ?thesis
    by (auto simp: fingerprint_step_def Let_def split: option.splits sum.splits)
qed

lemma lastfm_step_returns:
  "\<exists>res st'. lastfm_step w st artist title album track_number = (Inr res, st')"
proof -
  obtain res st1 where "lastfm_search w st artist title album = (Inr res, st1)"
    using returns_pair [OF lastfm_search_returns] by blast
  then show ?thesis
    by (auto simp: lastfm_step_def Let_def split: option.splits)
qed

lemma non_generic_rest_returns:
  assumes "stat_ok file_path"
  shows "\<exists>res st'. non_generic_rest w st artist album title track_number file_path = (Inr res, st')"
proof -
  have "\<exists>res st1. (case file_path of None \<Rightarrow> (Inr None, st)
            | Some f \<Rightarrow> if fingerprint_enabled st then fingerprint_step w st track_number f
                else (Inr None, st)) = (Inr res, st1)"
    using assms fingerprint_step_returns
    by (cases file_path) (auto simp: stat_ok_def)
  then obtain res st1 where a: "(case file_path of None \<Rightarrow> (Inr None, st)
            | Some f \<Rightarrow> if fingerprint_enabled st then fingerprint_step w st track_number f
                else (Inr None, st)) = (Inr res, st1)" by blast
  obtain res2 st2 where b: "lastfm_step w st1 artist title album track_number = (Inr res2, st2)"
    using lastfm_step_returns by blast
  from a b show ?thesis
    by (cases res) (auto simp: non_generic_rest_def)
qed

lemma non_generic_lookup_returns:
  assumes "stat_ok file_path"
  shows "\<exists>res st'. non_generic_lookup w st artist album title track_number file_path = (Inr res, st')"
proof -
  obtain res st1 where a: "search_musicbrainz_individual w st artist album title = (Inr res, st1)"
    using returns_pair [OF search_musicbrainz_individual_returns] by blast
  obtain res2 st2 where b:
    "non_generic_rest w st1 artist album title track_number file_path = (Inr res2, st2)"
    using non_generic_rest_returns [OF assms] by blast
  from a b show ?thesis
    by (cases res) (auto simp: non_generic_lookup_def)
qed

lemma lookup_strategies_returns:
  assumes "stat_ok file_path"
  shows "\<exists>m st'. lookup_strategies w st artist album title track_number is_generic file_path existing
           = (Inr m, st')"
proof -
  have "\<exists>res st1. (case file_path of None \<Rightarrow> (Inr None, st)
            | Some f \<Rightarrow> if is_generic \<and> fingerprint_enabled st
                then fingerprint_step w st track_number f else (Inr None, st)) = (Inr res, st1)"
    using assms fingerprint_step_returns
    by (cases file_path) (auto simp: stat_ok_def)
  then obtain r1 st1 where a: "(case file_path of None \<Rightarrow> (Inr None, st)
            | Some f \<Rightarrow> if is_generic \<and> fingerprint_enabled st
                then fingerprint_step w st track_number f else (Inr None, st)) = (Inr r1, st1)"
    by blast
  obtain r2 st2 where b: "position_step w st1 artist album track_number = (Inr r2, st2)"
    using position_step_returns by blast
  obtain r3 st3 where c:
    "non_generic_lookup w st1 artist album title track_number file_path = (Inr r3, st3)"
    using non_generic_lookup_returns [OF assms] by blast
  obtain r4 st4 where d:
    "non_generic_lookup w st2 artist album title track_number file_path = (Inr r4, st4)"
    using non_generic_lookup_returns [OF assms] by blast
  from a b c d show ?thesis
    by (cases r1; cases r2; cases r3; cases r4) (auto simp: lookup_strategies_def)
qed

lemma get_metadata_returns:
  assumes "stat_ok file_path"
  shows "\<exists>m st'. get_metadata w st artist album title track_number is_generic file_path existing
           = (Inr m, st')"
  using lookup_strategies_returns [OF assms]
  by (simp add: get_metadata_def)

subsection \<open>When every external call raises\<close>

lemma isl_Inl: "isl x \<Longrightarrow> \<exists>e. x = Inl e"
  by (cases x) auto

lemma all_calls_raiseD:
  assumes "all_calls_raise w"
  shows "\<exists>e. w_search_releases w h q = Inl e"
    and "\<exists>e. w_search_recordings w h q = Inl e"
    and "\<exists>e. w_fpcalc_version w h = Inl e"
    and "\<exists>e. w_fpcalc w h = Inl e"
    and "\<exists>e. w_lastfm_get_track w h a t = Inl e"
    and "\<exists>e. w_lastfm_get_artist w h a = Inl e"
  using assms unfolding all_calls_raise_def by (blast intro: isl_Inl)+

lemma negative_only_upd [simp]: "negative_only c \<Longrightarrow> negative_only (c(k \<mapsto> None))"
  by (simp add: negative_only_def)

lemma negative_onlyD: "negative_only c \<Longrightarrow> c k = None \<or> c k = Some None"
  by (simp add: negative_only_def)

lemma failing_album:
  assumes "all_calls_raise w" "no_cached_hit st"
  shows "\<exists>st'. search_album_tracks w st artist album = (Inr None, st') \<and> no_cached_hit st'"
proof -
  from assms(1) obtain e where e: "w_search_releases w (trace (rate_limit st))
      (''artist:'' @ [dq] @ artist @ [dq] @ '' AND release:'' @ [dq] @ album @ [dq]) = Inl e"
    using all_calls_raiseD by blast
  from assms(2) have c: "album_cache st (album_key artist album) = None \<or>
      album_cache st (album_key artist album) = Some None"
    by (simp add: no_cached_hit_def negative_onlyD)
  from c e assms(2) show ?thesis
    by (auto simp: search_album_tracks_def album_lookup_def Let_def rate_limit_def emit_def
                   no_cached_hit_def)
qed

lemma failing_position:
  assumes "all_calls_raise w" "no_cached_hit st"
  shows "\<exists>st'. position_step w st artist album track_number = (Inr None, st') \<and> no_cached_hit st'"
proof -
  obtain st1 where "search_album_tracks w st artist album = (Inr None, st1)" "no_cached_hit st1"
    using failing_album [OF assms] by blast
  with assms(2) show ?thesis
    by (auto simp: position_step_def search_track_by_position_def split: option.splits)
qed

lemma failing_strategy_loop:
  assumes "all_calls_raise w"
  shows "\<exists>tr. strategy_loop w artist album title k i qs st = (None, st\<lparr>trace := tr\<rparr>)"
proof (induction qs arbitrary: i st)
  case Nil
  have "st = st\<lparr>trace := trace st\<rparr>" by simp
  then show ?case by (metis strategy_loop.simps(1))
next
  case (Cons q qs)
  from assms obtain e where e: "w_search_recordings w (trace st) q = Inl e"
    using all_calls_raiseD by blast
  from Cons [of "Suc i" "emit (SearchRecordings q) st"] obtain tr where
    "strategy_loop w artist album title k (Suc i) qs (emit (SearchRecordings q) st)
       = (None, emit (SearchRecordings q) st\<lparr>trace := tr\<rparr>)" by blast
  with e show ?case by (auto simp: Let_def emit_def)
qed

lemma failing_track:
  assumes "all_calls_raise w" "no_cached_hit st"
  shows "\<exists>st'. search_musicbrainz_individual w st artist album title = (Inr None, st') \<and>
           no_cached_hit st' \<and> fingerprint_enabled st' = fingerprint_enabled st \<and>
           lastfm_enabled st' = lastfm_enabled st"
proof -
  obtain tr where l: "strategy_loop w artist album title (track_key artist album title) 0
        (search_strategies artist album title) (rate_limit st) = (None, rate_limit st\<lparr>trace := tr\<rparr>)"
    using failing_strategy_loop [OF assms(1)] by blast
  from assms(2) have c: "cache st (track_key artist album title) = None \<or>
      cache st (track_key artist album title) = Some None"
    by (simp add: no_cached_hit_def negative_onlyD)
  from c l assms(2) show ?thesis
    by (auto simp: search_musicbrainz_individual_def rate_limit_def emit_def
                   no_cached_hit_def)
qed

lemma failing_fingerprint:
  assumes "all_calls_raise w" "no_cached_hit st" "\<not> isl (f_stat_size f)"
  shows "\<exists>st'. audio_fingerprint_lookup w st f = (Inr None, st') \<and> no_cached_hit st' \<and>
           lastfm_enabled st' = lastfm_enabled st"
proof -
  from assms(1) obtain e where e: "w_fpcalc_version w (trace st) = Inl e"
    using all_calls_raiseD by blast
  from assms(1) obtain e2 where e2: "w_fpcalc w (trace (emit FpcalcVersion st)) = Inl e2"
    using all_calls_raiseD by blast
  from assms(3) obtain sz where sz: "f_stat_size f = Inr sz" by (cases "f_stat_size f") auto
  from assms(2) have c: "fingerprint_cache st (fingerprint_key f sz) = None \<or>
      fingerprint_cache st (fingerprint_key f sz) = Some None"
    by (simp add: no_cached_hit_def negative_onlyD)
  from c e e2 sz assms(2) show ?thesis
    by (auto simp: audio_fingerprint_lookup_def fingerprint_try_def Let_def fp_miss_def
                   fp_disable_def emit_def no_cached_hit_def)
qed

lemma failing_fingerprint_step:
  assumes "all_calls_raise w" "no_cached_hit st" "\<not> isl (f_stat_size f)"
  shows "\<exists>st'. fingerprint_step w st track_number f = (Inr None, st') \<and> no_cached_hit st' \<and>
           lastfm_enabled st' = lastfm_enabled st"
proof -
  obtain st1 where "audio_fingerprint_lookup w st f = (Inr None, st1)" "no_cached_hit st1"
     "lastfm_enabled st1 = lastfm_enabled st"
    using failing_fingerprint [OF assms] by blast
  then show ?thesis by (auto simp: fingerprint_step_def)
qed

lemma failing_lastfm:
  assumes "all_calls_raise w" "no_cached_hit st"
  shows "\<exists>st'. lastfm_search w st artist title album = (Inr None, st') \<and> no_cached_hit st'"
proof -
  from assms(1) obtain e where e: "w_lastfm_get_track w (trace (emit (Sleep 300) st)) artist title = Inl e"
    using all_calls_raiseD by blast
  from assms(1) obtain e2 where e2: "w_lastfm_get_artist w
      (trace (emit (LastfmGetTrack artist title) (emit (Sleep 300) st))) artist = Inl e2"
    using all_calls_raiseD by blast
  from assms(2) have c: "lastfm_cache st (lastfm_key artist title album) = None \<or>
      lastfm_cache st (lastfm_key artist title album) = Some None"
    by (simp add: no_cached_hit_def negative_onlyD)
  from c e e2 assms(2) show ?thesis
    by (auto simp: lastfm_search_def lastfm_direct_def lastfm_correction_def Let_def
                   lastfm_miss_def emit_def no_cached_hit_def)
qed

lemma failing_lastfm_step:
  assumes "all_calls_raise w" "no_cached_hit st"
  shows "\<exists>st'. lastfm_step w st artist title album track_number = (Inr None, st')"
proof -
  obtain st1 where "lastfm_search w st artist title album = (Inr None, st1)"
    using failing_lastfm [OF assms] by blast
  then show ?thesis by (auto simp: lastfm_step_def)
qed

lemma failing_first_step:
  assumes "all_calls_raise w" "no_cached_hit st" "stat_ok file_path"
  shows "\<exists>st'. (case file_path of None \<Rightarrow> (Inr None, st)
            | Some f \<Rightarrow> if c \<and> fingerprint_enabled st
                then fingerprint_step w st track_number f else (Inr None, st)) = (Inr None, st') \<and>
           no_cached_hit st'"
proof (cases file_path)
  case None
  with assms(2) show ?thesis by simp
next
  case (Some f)
  with assms(3) have "\<not> isl (f_stat_size f)" by (simp add: stat_ok_def)
  from failing_fingerprint_step [OF assms(1,2) this] Some assms(2) show ?thesis by auto
qed

lemma failing_non_generic_rest:
  assumes "all_calls_raise w" "no_cached_hit st" "stat_ok file_path"
  shows "\<exists>st'. non_generic_rest w st artist album title track_number file_path = (Inr None, st')"
proof -
  obtain st1 where a: "(case file_path of None \<Rightarrow> (Inr None, st)
            | Some f \<Rightarrow> if True \<and> fingerprint_enabled st
                then fingerprint_step w st track_number f else (Inr None, st)) = (Inr None, st1)"
     and n: "no_cached_hit st1"
    using failing_first_step [OF assms, of True] by blast
  from a have a': "(case file_path of None \<Rightarrow> (Inr None, st)
            | Some f \<Rightarrow> if fingerprint_enabled st
                then fingerprint_step w st track_number f else (Inr None, st)) = (Inr None, st1)"
    by (cases file_path) auto
  obtain st2 where b: "lastfm_step w st1 artist title album track_number = (Inr None, st2)"
    using failing_lastfm_step [OF assms(1) n] by blast
  from a' b show ?thesis by (auto simp: non_generic_rest_def)
qed

lemma failing_non_generic_lookup:
  assumes "all_calls_raise w" "no_cached_hit st" "stat_ok file_path"
  shows "\<exists>st'. non_generic_lookup w st artist album title track_number file_path = (Inr None, st')"
proof -
  obtain st1 where a: "search_musicbrainz_individual w st artist album title = (Inr None, st1)"
     and n: "no_cached_hit st1"
    using failing_track [OF assms(1,2)] by blast
  obtain st2 where b: "non_generic_rest w st1 artist album title track_number file_path = (Inr None, st2)"
    using failing_non_generic_rest [OF assms(1) n assms(3)] by blast
  from a b show ?thesis by (auto simp: non_generic_lookup_def)
qed

lemma failing_lookup_strategies:
  assumes "all_calls_raise w" "no_cached_hit st" "stat_ok file_path"
  shows "\<exists>st'. lookup_strategies w st artist album title track_number is_generic file_path existing
           = (Inr (fallback_metadata artist album title track_number existing), st')"
proof -
  obtain st1 where a: "(case file_path of None \<Rightarrow> (Inr None, st)
            | Some f \<Rightarrow> if is_generic \<and> fingerprint_enabled st
                then fingerprint_step w st track_number f else (Inr None, st)) = (Inr None, st1)"
     and n1: "no_cached_hit st1"
    using failing_first_step [OF assms, of is_generic] by blast
  obtain st2 where b: "position_step w st1 artist album track_number = (Inr None, st2)"
     and n2: "no_cached_hit st2"
    using failing_position [OF assms(1) n1] by blast
  obtain st3 where c: "non_generic_lookup w st1 artist album title track_number file_path = (Inr None, st3)"
    using failing_non_generic_lookup [OF assms(1) n1 assms(3)] by blast
  obtain st4 where d: "non_generic_lookup w st2 artist album title track_number file_path = (Inr None, st4)"
    using failing_non_generic_lookup [OF assms(1) n2 assms(3)] by blast
  from a b c d show ?thesis by (auto simp: lookup_strategies_def)
qed

subsection \<open>The fallback record\<close>

lemma has_value_update:
  "has_value (AList.update k v m) key = (if key = k then v \<noteq> [] else has_value m key)"
  by (simp add: has_value_def update_conv')

lemma merge_existing_has_value:
  "has_value (merge_existing e fb) key =
     (has_value fb key \<or> list_ex (\<lambda>(k, v). k = key \<and> v \<noteq> []) e)"
proof (induction e arbitrary: fb)
  case Nil
  then show ?case by (simp add: merge_existing_def)
next
  case (Cons p e)
  obtain k v where p: "p = (k, v)" by (cases p)
  have step: "merge_existing (p # e) fb =
      merge_existing e (if v \<noteq> [] \<and> \<not> has_value fb k then AList.update k v fb else fb)"
    by (simp add: merge_existing_def p)
  show ?case unfolding step Cons.IH
    by (auto simp: p has_value_update)
qed

lemma merge_existing_present:
  "map_of fb key \<noteq> None \<Longrightarrow> map_of (merge_existing e fb) key \<noteq> None"
proof (induction e arbitrary: fb)
  case Nil
  then show ?case by (simp add: merge_existing_def)
next
  case (Cons p e)
  obtain k v where p: "p = (k, v)" by (cases p)
  have step: "merge_existing (p # e) fb =
      merge_existing e (if v \<noteq> [] \<and> \<not> has_value fb k then AList.update k v fb else fb)"
    by (simp add: merge_existing_def p)
  from Cons.prems show ?case unfolding step
    by (intro Cons.IH) (auto simp: update_conv')
qed

lemma fallback_has_value:
  "has_value (fallback_metadata artist album title tn existing) ''title'' =
     (title \<noteq> [] \<or> existing_has existing ''title'')"
  "has_value (fallback_metadata artist album title tn existing) ''artist'' =
     (artist \<noteq> [] \<or> existing_has existing ''artist'')"
proof -
  let ?fb = "[(''title'', title), (''artist'', artist), (''album'', album),
              (''track_number'', if number_given tn then number_str tn else [])]"
  have t: "has_value ?fb ''title'' = (title \<noteq> [])" and a: "has_value ?fb ''artist'' = (artist \<noteq> [])"
    by (simp_all add: has_value_def)
  show "has_value (fallback_metadata artist album title tn existing) ''title'' =
     (title \<noteq> [] \<or> existing_has existing ''title'')"
  proof (cases existing)
    case None
    then show ?thesis using t by (simp add: fallback_metadata_def existing_has_def)
  next
    case (Some e)
    then show ?thesis using t merge_existing_has_value [of e ?fb "''title''"]
      by (cases "e = []") (simp_all add: fallback_metadata_def existing_has_def)
  qed
  show "has_value (fallback_metadata artist album title tn existing) ''artist'' =
     (artist \<noteq> [] \<or> existing_has existing ''artist'')"
  proof (cases existing)
    case None
    then show ?thesis using a by (simp add: fallback_metadata_def existing_has_def)
  next
    case (Some e)
    then show ?thesis using a merge_existing_has_value [of e ?fb "''artist''"]
      by (cases "e = []") (simp_all add: fallback_metadata_def existing_has_def)
  qed
qed

lemma fallback_present:
  "map_of (fallback_metadata artist album title tn existing) ''title'' \<noteq> None"
  "map_of (fallback_metadata artist album title tn existing) ''artist'' \<noteq> None"
proof -
  let ?fb = "[(''title'', title), (''artist'', artist), (''album'', album),
              (''track_number'', if number_given tn then number_str tn else [])]"
  have t: "map_of ?fb ''title'' \<noteq> None" and a: "map_of ?fb ''artist'' \<noteq> None"
    by simp_all
  show "map_of (fallback_metadata artist album title tn existing) ''title'' \<noteq> None"
  proof (cases existing)
    case None
    then show ?thesis using t by (simp add: fallback_metadata_def)
  next
    case (Some e)
    then show ?thesis using t merge_existing_present [of ?fb "''title''" e]
      by (cases "e = []") (simp_all add: fallback_metadata_def)
  qed
  show "map_of (fallback_metadata artist album title tn existing) ''artist'' \<noteq> None"
  proof (cases existing)
    case None
    then show ?thesis using a by (simp add: fallback_metadata_def)
  next
    case (Some e)
    then show ?thesis using a merge_existing_present [of ?fb "''artist''" e]
      by (cases "e = []") (simp_all add: fallback_metadata_def)
  qed
qed

subsection \<open>Lookups that leave the text search client alone\<close>

lemma nts_refl [simp]: "no_text_search st st"
  by (simp add: no_text_search_def)

lemma nts_iff:
  "no_text_search st st' \<longleftrightarrow>
     lastfm_cache st' = lastfm_cache st \<and>
     (\<exists>evs. trace st' = trace st @ evs \<and> list_all (\<lambda>e. \<not> is_lastfm_event e) evs)"
proof
  assume a: "no_text_search st st'"
  then have "trace st' = trace st @ drop (length (trace st)) (trace st')"
    by (metis append_take_drop_id no_text_search_def)
  with a show "lastfm_cache st' = lastfm_cache st \<and>
     (\<exists>evs. trace st' = trace st @ evs \<and> list_all (\<lambda>e. \<not> is_lastfm_event e) evs)"
    unfolding no_text_search_def by blast
next
  assume "lastfm_cache st' = lastfm_cache st \<and>
     (\<exists>evs. trace st' = trace st @ evs \<and> list_all (\<lambda>e. \<not> is_lastfm_event e) evs)"
  then show "no_text_search st st'"
    by (auto simp: no_text_search_def)
qed

lemma nts_trans: "no_text_search a b \<Longrightarrow> no_text_search b c \<Longrightarrow> no_text_search a c"
  unfolding nts_iff by (auto simp: list_all_append)

lemma nts_emit: "no_text_search a s \<Longrightarrow> \<not> is_lastfm_event e \<Longrightarrow> no_text_search a (emit e s)"
  unfolding nts_iff by (auto simp: emit_def)

lemma nts_rate_limit: "no_text_search a s \<Longrightarrow> no_text_search a (rate_limit s)"
  by (simp add: rate_limit_def nts_emit)

lemma nts_album_cache: "no_text_search a s \<Longrightarrow> no_text_search a (s\<lparr>album_cache := c\<rparr>)"
  by (simp add: no_text_search_def)

lemma nts_fingerprint_cache: "no_text_search a s \<Longrightarrow> no_text_search a (s\<lparr>fingerprint_cache := c\<rparr>)"
  by (simp add: no_text_search_def)

lemma nts_fp_miss: "no_text_search a s \<Longrightarrow> no_text_search a (fp_miss s k)"
  by (simp add: no_text_search_def fp_miss_def)

lemma nts_fp_disable: "no_text_search a s \<Longrightarrow> no_text_search a (fp_disable s)"
  by (simp add: no_text_search_def fp_disable_def)

lemmas nts_intros = nts_emit nts_rate_limit nts_album_cache nts_fingerprint_cache nts_fp_miss
  nts_fp_disable

lemma album_pick_nts:
  "album_pick w st artist album k result = (r, st') \<Longrightarrow> no_text_search a st \<Longrightarrow> no_text_search a st'"
  by (auto simp: album_pick_def album_not_found_def Let_def
           split: if_splits sum.splits option.splits prod.splits intro!: nts_intros)

lemma album_lookup_nts:
  "album_lookup w st artist album k = (r, st') \<Longrightarrow> no_text_search a st \<Longrightarrow> no_text_search a st'"
  by (auto simp: album_lookup_def Let_def split: if_splits sum.splits
           elim!: album_pick_nts intro!: nts_intros)

lemma search_album_tracks_nts:
  "search_album_tracks w st artist album = (r, st') \<Longrightarrow> no_text_search a st \<Longrightarrow> no_text_search a st'"
  by (auto simp: search_album_tracks_def Let_def split: if_splits option.splits sum.splits prod.splits
           elim: album_lookup_nts intro!: nts_intros)

lemma position_step_nts:
  "position_step w st artist album track_number = (r, st') \<Longrightarrow> no_text_search a st \<Longrightarrow>
     no_text_search a st'"
  by (auto simp: position_step_def search_track_by_position_def
           split: option.splits sum.splits prod.splits if_splits
           elim: search_album_tracks_nts)

lemma fingerprint_generate_nts:
  "fingerprint_generate w st f k = (r, st') \<Longrightarrow> no_text_search a st \<Longrightarrow> no_text_search a st'"
  by (auto simp: fingerprint_generate_def Let_def
           split: sum.splits prod.splits if_splits option.splits intro!: nts_intros)

lemma fingerprint_try_nts:
  "fingerprint_try w st f k = (r, st') \<Longrightarrow> no_text_search a st \<Longrightarrow> no_text_search a st'"
  by (auto simp: fingerprint_try_def Let_def split: sum.splits if_splits
           elim!: fingerprint_generate_nts intro!: nts_intros)

lemma audio_fingerprint_lookup_nts:
  "audio_fingerprint_lookup w st f = (r, st') \<Longrightarrow> no_text_search a st \<Longrightarrow> no_text_search a st'"
  by (auto simp: audio_fingerprint_lookup_def Let_def
           split: if_splits option.splits sum.splits prod.splits
           elim: fingerprint_try_nts intro!: nts_intros)

lemma fingerprint_step_nts:
  "fingerprint_step w st track_number f = (r, st') \<Longrightarrow> no_text_search a st \<Longrightarrow> no_text_search a st'"
  by (auto simp: fingerprint_step_def Let_def
           split: sum.splits prod.splits if_splits option.splits
           elim: audio_fingerprint_lookup_nts intro!: nts_intros)

lemma generic_lookup_nts:
  "lookup_strategies w st artist album title track_number True file_path existing = (r, st')
     \<Longrightarrow> no_text_search st st'"
proof -
  assume a: "lookup_strategies w st artist album title track_number True file_path existing = (r, st')"
  obtain r1 st1 where s1: "(case file_path of None \<Rightarrow> (Inr None, st)
            | Some f \<Rightarrow> if True \<and> fingerprint_enabled st
                then fingerprint_step w st track_number f else (Inr None, st)) = (r1, st1)"
    by (cases "(case file_path of None \<Rightarrow> (Inr None, st)
            | Some f \<Rightarrow> if True \<and> fingerprint_enabled st
                then fingerprint_step w st track_number f else (Inr None, st))")
  have n1: "no_text_search st st1"
    using s1 by (cases file_path) (auto split: if_splits elim: fingerprint_step_nts)
  obtain r2 st2 where s2: "position_step w st1 artist album track_number = (r2, st2)"
    by (cases "position_step w st1 artist album track_number")
  have n2: "no_text_search st st2"
    using position_step_nts [OF s2 n1] .
  from a s1 s2 n1 n2 show ?thesis
    by (auto simp: lookup_strategies_def split: sum.splits option.splits if_splits)
qed

lemma best_release_loop_indep:
  "best_release_loop (w\<lparr>w_lastfm_get_track := g, w_lastfm_get_artist := h\<rparr>) artist album rs best score
     = best_release_loop w artist album rs best score"
  by (induction rs arbitrary: best score)
     (auto simp: Let_def split: option.splits sum.splits)

lemma album_pick_indep:
  "album_pick (w\<lparr>w_lastfm_get_track := g, w_lastfm_get_artist := h\<rparr>) st artist album k result
     = album_pick w st artist album k result"
  by (simp add: album_pick_def best_release_loop_indep
           cong: option.case_cong sum.case_cong prod.case_cong if_cong)

lemma search_album_tracks_indep:
  "search_album_tracks (w\<lparr>w_lastfm_get_track := g, w_lastfm_get_artist := h\<rparr>) st artist album
     = search_album_tracks w st artist album"
  by (simp add: search_album_tracks_def album_lookup_def album_pick_indep
           cong: option.case_cong sum.case_cong prod.case_cong if_cong)

lemma position_step_indep:
  "position_step (w\<lparr>w_lastfm_get_track := g, w_lastfm_get_artist := h\<rparr>) st artist album tn
     = position_step w st artist album tn"
  by (simp add: position_step_def search_track_by_position_def search_album_tracks_indep
           cong: option.case_cong sum.case_cong prod.case_cong if_cong)

lemma fingerprint_step_indep:
  "fingerprint_step (w\<lparr>w_lastfm_get_track := g, w_lastfm_get_artist := h\<rparr>) st tn f
     = fingerprint_step w st tn f"
  by (simp add: fingerprint_step_def audio_fingerprint_lookup_def fingerprint_try_def
                fingerprint_generate_def acoustid_metadata_def
           cong: option.case_cong sum.case_cong prod.case_cong if_cong list.case_cong)

lemma generic_lookup_indep:
  "lookup_strategies (w\<lparr>w_lastfm_get_track := g, w_lastfm_get_artist := h\<rparr>) st artist album title
       track_number True file_path existing
     = lookup_strategies w st artist album title track_number True file_path existing"
  by (simp add: lookup_strategies_def position_step_indep fingerprint_step_indep
           cong: option.case_cong sum.case_cong prod.case_cong if_cong)

lemma has_value_existing_has: "has_value e key \<Longrightarrow> existing_has (Some e) key"
proof -
  assume "has_value e key"
  then obtain v where "map_of e key = Some v" "v \<noteq> []"
    by (auto simp: has_value_def split: option.splits)
  then have "(key, v) \<in> set e" by (simp add: map_of_SomeD)
  with \<open>v \<noteq> []\<close> show ?thesis
    by (auto simp: existing_has_def list_ex_iff)
qed

lemma has_value_present: "has_value e key \<Longrightarrow> map_of e key \<noteq> None"
  by (auto simp: has_value_def split: option.splits)

lemma failing_world_raises: "all_calls_raise failing_world"
  by (simp add: all_calls_raise_def failing_world_def)

lemma init_state_no_hit: "no_cached_hit (init_state a b)"
  by (simp add: no_cached_hit_def negative_only_def init_state_def)

section \<open>Caching, failures and the fallback\<close>







text \<open>
  C1. Claimed: the record returned always has a non-empty title and artist. For a file
  directly under the scan root the parser gives an empty artist; when no source answers,
  the fallback record carries that empty artist.
\<close>

theorem empty_artist_counterexample:
  "fst (get_metadata failing_world (init_state True True) [] [] ''Song'' None False
            (Some sample_file) None)
     = Inr [(''title'', ''Song''), (''artist'', []), (''album'', []), (''track_number'', [])]"
  by code_simp

lemma failing_get_metadata:
  assumes "all_calls_raise w" and "no_cached_hit st" and "stat_ok file_path"
  shows "\<exists>m st'. get_metadata w st artist album title track_number is_generic file_path existing
                    = (Inr m, st') \<and>
           m = (if existing_complete existing then opt_or existing []
                else fallback_metadata artist album title track_number existing) \<and>
           map_of m ''title'' \<noteq> None \<and> map_of m ''artist'' \<noteq> None \<and>
           has_value m ''title'' = (title \<noteq> [] \<or> existing_has existing ''title'') \<and>
           has_value m ''artist'' = (artist \<noteq> [] \<or> existing_has existing ''artist'')"
proof (cases "existing_complete existing")
  case True
  then obtain e where e: "existing = Some e" "is_metadata_complete e"
    by (auto simp: existing_complete_def split: option.splits)
  then have hv: "has_value e ''title''" "has_value e ''artist''"
    by (simp_all add: is_metadata_complete_iff)
  from hv have pr: "map_of e ''title'' \<noteq> None" "map_of e ''artist'' \<noteq> None"
    by (simp_all add: has_value_present)
  from hv have eh: "existing_has (Some e) ''title''" "existing_has (Some e) ''artist''"
    by (simp_all add: has_value_existing_has)
  from True e hv pr eh show ?thesis
    by (simp add: get_metadata_def opt_or_def)
next
  case False
  obtain st' where "lookup_strategies w st artist album title track_number is_generic file_path existing
      = (Inr (fallback_metadata artist album title track_number existing), st')"
    using failing_lookup_strategies [OF assms] by blast
  with False fallback_present [of artist album title track_number existing] show ?thesis
    by (simp add: get_metadata_def fallback_has_value)
qed

text \<open>
  C1, amended. When the size of the file, if a file is given, can be read,
  \<open>get_metadata\<close> returns a record. When moreover every external call raises and no cache
  holds a record, it is the existing metadata when that is complete, otherwise the record
  built from the path; its title and artist keys are present, and the title (the artist)
  has a non-empty value exactly when the title (the artist) passed in is non-empty or the
  existing metadata has a non-empty value for it.
\<close>

theorem fallback_when_every_source_fails:
  "(stat_ok file_path \<longrightarrow>
      (\<exists>m. fst (get_metadata w st artist album title track_number is_generic file_path existing)
             = Inr m)) \<and>
   (all_calls_raise w \<and> no_cached_hit st \<and> stat_ok file_path \<longrightarrow>
      (\<exists>m st'. get_metadata w st artist album title track_number is_generic file_path existing
                    = (Inr m, st') \<and>
           m = (if existing_complete existing then opt_or existing []
                else fallback_metadata artist album title track_number existing) \<and>
           map_of m ''title'' \<noteq> None \<and> map_of m ''artist'' \<noteq> None \<and>
           has_value m ''title'' = (title \<noteq> [] \<or> existing_has existing ''title'') \<and>
           has_value m ''artist'' = (artist \<noteq> [] \<or> existing_has existing ''artist'')))"
proof -
  have a: "stat_ok file_path \<longrightarrow>
      (\<exists>m. fst (get_metadata w st artist album title track_number is_generic file_path existing)
             = Inr m)"
  proof
    assume "stat_ok file_path"
    from get_metadata_returns [OF this] obtain m st' where
      "get_metadata w st artist album title track_number is_generic file_path existing = (Inr m, st')"
      by blast
    then show "\<exists>m. fst (get_metadata w st artist album title track_number is_generic file_path
        existing) = Inr m" by simp
  qed
  from a failing_get_metadata [of w st file_path artist album title track_number is_generic existing]
  show ?thesis by blast
qed

theorem fallback_when_every_source_fails_witness:
  "all_calls_raise failing_world \<and> no_cached_hit (init_state True True) \<and>
   stat_ok (Some sample_file) \<and>
   (\<exists>m st'. get_metadata failing_world (init_state True True) ''Queen'' ''A Night at the Opera''
                ''Bohemian Rhapsody'' (Some 4) False (Some sample_file) None = (Inr m, st') \<and>
      m = fallback_metadata ''Queen'' ''A Night at the Opera'' ''Bohemian Rhapsody'' (Some 4) None \<and>
      has_value m ''title'' \<and> has_value m ''artist'')"
proof -
  have s: "stat_ok (Some sample_file)" by (simp add: stat_ok_def sample_file_def)
  have n: "\<not> existing_complete None" by (simp add: existing_complete_def)
  from fallback_when_every_source_fails [of "Some sample_file" failing_world "init_state True True"
      "''Queen''" "''A Night at the Opera''" "''Bohemian Rhapsody''" "Some 4" False None]
    failing_world_raises init_state_no_hit [of True True] s n
  show ?thesis by auto
qed

text \<open>
  C4. With \<open>is_generic\<close> true, \<open>get_metadata\<close> never reaches the text search client: from
  the state before to the state after, the trace grows by events that are none of that
  client and its cache is the same; and the result and the final state are the same
  whatever Last.fm would answer.
\<close>

theorem generic_never_text_search:
  "no_text_search st (snd (get_metadata w st artist album title track_number True file_path existing)) \<and>
   get_metadata (w\<lparr>w_lastfm_get_track := g, w_lastfm_get_artist := h\<rparr>) st artist album title
       track_number True file_path existing
     = get_metadata w st artist album title track_number True file_path existing"
proof -
  have a: "no_text_search st
      (snd (get_metadata w st artist album title track_number True file_path existing))"
  proof (cases "existing_complete existing")
    case True
    then show ?thesis by (simp add: get_metadata_def)
  next
    case False
    obtain r st' where l:
      "lookup_strategies w st artist album title track_number True file_path existing = (r, st')"
      by (cases "lookup_strategies w st artist album title track_number True file_path existing")
    from generic_lookup_nts [OF l] l False show ?thesis by (simp add: get_metadata_def)
  qed
  have b: "get_metadata (w\<lparr>w_lastfm_get_track := g, w_lastfm_get_artist := h\<rparr>) st artist album title
       track_number True file_path existing
     = get_metadata w st artist album title track_number True file_path existing"
    by (simp add: get_metadata_def generic_lookup_indep)
  from a b show ?thesis by blast
qed

theorem generic_never_text_search_witness:
  "no_text_search (init_state True True)
     (snd (get_metadata correction_world (init_state True True) ''Queen'' ''A Night at the Opera''
             ''Track 01'' (Some 1) True (Some sample_file) None))"
  using generic_never_text_search [of "init_state True True" correction_world "''Queen''"
      "''A Night at the Opera''" "''Track 01''" "Some 1" "Some sample_file" None]
  by blast



end
